theory Spec2Isabelle
  imports Complex_Main
begin

section \<open>JavaScript values\<close>

text \<open>
  The values that reach the persistence and backup code: the parsed backup file, the
  records of the object stores and their fields. They are the JSON values and the
  number \<open>NaN\<close>, which is not a JSON value but is what the arithmetic of \<open>setScale\<close>
  gives on a scale descriptor without bounds or step, and which \<open>saveTheme\<close> then
  stores. An object is a finite map from property names to values; \<open>undefined\<close>
  appears only as the result of reading a property, so a read returns a \<open>jv option\<close>
  with \<open>None\<close> for \<open>undefined\<close>. Finite numbers are modelled as real numbers
  (timestamps and generated keys are integers among them); rounding of doubles is not
  modelled. Values that a record can hold in IndexedDB but that are neither JSON
  values nor \<open>NaN\<close> (a property whose value is \<open>undefined\<close>, a \<open>Date\<close>, an infinite
  number, binary data) are outside this model.
\<close>

datatype jv =
    JNull
  | JBool bool
  | JNum real
  | JNaN
  | JStr string
  | JArr "jv list"
  | JObj "string \<Rightarrow> jv option"

type_synonym obj = "string \<Rightarrow> jv option"

text \<open>
  What a rejected promise or a caught exception carries. \<open>Error msg\<close> is
  \<open>new Error(msg)\<close>; \<open>ItemNotFound id storeName\<close> is the error
  \<open>new Error(`Item with id ${id} not found in ${storeName}`)\<close> of \<open>updateItem\<close>, kept
  with its two parameters instead of the rendered text; the others are the exceptions of
  the language (\<open>TypeError\<close>) and of IndexedDB (\<open>DataError\<close>, \<open>ConstraintError\<close>,
  \<open>NotFoundError\<close>).
\<close>

datatype error =
    Error string
  | ItemNotFound jv string
  | TypeError
  | DataError
  | ConstraintError
  | NotFoundError

text \<open>Truthiness, as tested by \<open>!x\<close>, \<open>if (x)\<close> and \<open>x || y\<close>.\<close>

fun truthy :: "jv \<Rightarrow> bool" where
  "truthy JNull = False"
| "truthy (JBool b) = b"
| "truthy (JNum n) = (n \<noteq> 0)"
| "truthy JNaN = False"
| "truthy (JStr s) = (s \<noteq> [])"
| "truthy (JArr xs) = True"
| "truthy (JObj ps) = True"

fun truthy_opt :: "jv option \<Rightarrow> bool" where
  "truthy_opt None = False"
| "truthy_opt (Some v) = truthy v"

text \<open>
  Reading a property \<open>v.name\<close>. Reading from \<open>undefined\<close> or \<open>null\<close> throws a
  TypeError. The names the program reads (\<open>magic\<close>, \<open>version\<close>, \<open>timestamp\<close>, \<open>data\<close>,
  \<open>metadata\<close>, \<open>themes\<close>, \<open>colors\<close>, ...) are never \<open>length\<close> or an index, so on a
  boolean, a number, a string or an array the read gives \<open>undefined\<close>.
\<close>

fun read_prop :: "jv option \<Rightarrow> string \<Rightarrow> error + jv option" where
  "read_prop None name = Inl TypeError"
| "read_prop (Some JNull) name = Inl TypeError"
| "read_prop (Some (JObj ps)) name = Inr (ps name)"
| "read_prop (Some v) name = Inr None"

text \<open>Decimal rendering of an array index, the property name of an array element.\<close>

fun digit_char :: "nat \<Rightarrow> char" where
  "digit_char n = char_of (48 + n)"

fun show_nat :: "nat \<Rightarrow> string" where
  "show_nat n = (if n < 10 then [digit_char n] else show_nat (n div 10) @ [digit_char (n mod 10)])"

declare show_nat.simps [simp del]

text \<open>The object with the elements of a list under their indices \<open>"0"\<close>, \<open>"1"\<close>, ...\<close>

definition indexed :: "jv list \<Rightarrow> obj" where
  "indexed xs = map_of (zip (map show_nat [0..<length xs]) xs)"

text \<open>
  The own enumerable properties that an object spread \<open>{...v}\<close> or a rest pattern
  \<open>{id, ...rest} = v\<close> copies: the properties of an object, the elements of an array and
  the characters of a string under their indices, nothing for a boolean or a number
  (and nothing for \<open>null\<close> in a spread; a rest pattern on \<open>null\<close> throws before).
\<close>

fun own_props :: "jv \<Rightarrow> obj" where
  "own_props (JObj ps) = ps"
| "own_props (JArr xs) = indexed xs"
| "own_props (JStr s) = indexed (map (\<lambda>c. JStr [c]) s)"
| "own_props v = Map.empty"

text \<open>
  \<open>JSON.parse(JSON.stringify(v))\<close>: the value that comes back from the JSON text of a
  value. \<open>JSON.stringify\<close> writes \<open>NaN\<close> as \<open>null\<close>, also inside arrays and objects;
  every JSON value comes back as it was. \<open>is_json v\<close>: the value holds no \<open>NaN\<close>, so
  that its JSON text stands for the value itself.
\<close>

primrec reparse :: "jv \<Rightarrow> jv" where
  "reparse JNull = JNull"
| "reparse (JBool b) = JBool b"
| "reparse (JNum n) = JNum n"
| "reparse JNaN = JNull"
| "reparse (JStr s) = JStr s"
| "reparse (JArr xs) = JArr (map reparse xs)"
| "reparse (JObj ps) = JObj (map_option reparse \<circ> ps)"

definition is_json :: "jv \<Rightarrow> bool" where
  "is_json v \<longleftrightarrow> reparse v = v"

section \<open>The object stores (database.js)\<close>

subsection \<open>Keys\<close>

text \<open>
  IndexedDB accepts as keys numbers other than \<open>NaN\<close>, strings and arrays of keys
  (dates and binary keys are outside the model). Keys are ordered: numbers before
  strings before arrays, numbers by value, strings by code units, arrays element by
  element.
\<close>

fun valid_key :: "jv \<Rightarrow> bool" where
  "valid_key (JNum n) = True"
| "valid_key (JStr s) = True"
| "valid_key (JArr xs) = list_all valid_key xs"
| "valid_key v = False"

fun str_less :: "string \<Rightarrow> string \<Rightarrow> bool" where
  "str_less [] [] = False"
| "str_less [] (y # ys) = True"
| "str_less (x # xs) [] = False"
| "str_less (x # xs) (y # ys) =
     ((of_char x :: nat) < of_char y \<or> (x = y \<and> str_less xs ys))"

fun key_less :: "jv \<Rightarrow> jv \<Rightarrow> bool" and keys_less :: "jv list \<Rightarrow> jv list \<Rightarrow> bool" where
  "key_less (JNum a) (JNum b) = (a < b)"
| "key_less (JNum a) (JStr t) = True"
| "key_less (JNum a) (JArr ys) = True"
| "key_less (JStr s) (JStr t) = str_less s t"
| "key_less (JStr s) (JArr ys) = True"
| "key_less (JArr xs) (JArr ys) = keys_less xs ys"
| "key_less a b = False"
| "keys_less [] [] = False"
| "keys_less [] (y # ys) = True"
| "keys_less (x # xs) [] = False"
| "keys_less (x # xs) (y # ys) = (key_less x y \<or> (x = y \<and> keys_less xs ys))"

subsection \<open>Stores and their configuration\<close>

text \<open>
  A store holds its records in ascending key order, each with its key, and the current
  number of its key generator (used when \<open>autoIncrement\<close> is set; it starts at 1).
\<close>

record store =
  items :: "(jv \<times> obj) list"
  keygen :: int

record store_config =
  keyPath :: string
  autoIncrement :: bool

text \<open>
  \<open>STORES\<close>: the four stores. Their indexes are all declared \<open>unique: false\<close>, so they
  never reject a record and are left out.
\<close>

definition STORES :: "string \<Rightarrow> store_config option" where
  "STORES name =
     (if name = ''themes'' then Some \<lparr>keyPath = ''id'', autoIncrement = False\<rparr>
      else if name = ''operations'' then Some \<lparr>keyPath = ''id'', autoIncrement = True\<rparr>
      else if name = ''workspaces'' then Some \<lparr>keyPath = ''id'', autoIncrement = True\<rparr>
      else if name = ''backups'' then Some \<lparr>keyPath = ''timestamp'', autoIncrement = False\<rparr>
      else None)"

record database =
  themes :: store
  operations :: store
  workspaces :: store
  backups :: store

definition get_store :: "string \<Rightarrow> database \<Rightarrow> store option" where
  "get_store name d =
     (if name = ''themes'' then Some (themes d)
      else if name = ''operations'' then Some (operations d)
      else if name = ''workspaces'' then Some (workspaces d)
      else if name = ''backups'' then Some (backups d)
      else None)"

definition put_store :: "string \<Rightarrow> store \<Rightarrow> database \<Rightarrow> database" where
  "put_store name st d =
     (if name = ''themes'' then d\<lparr>themes := st\<rparr>
      else if name = ''operations'' then d\<lparr>operations := st\<rparr>
      else if name = ''workspaces'' then d\<lparr>workspaces := st\<rparr>
      else if name = ''backups'' then d\<lparr>backups := st\<rparr>
      else d)"

subsection \<open>The store operations of IndexedDB\<close>

definition store_get :: "store \<Rightarrow> jv \<Rightarrow> obj option" where
  "store_get st k = map_of (items st) k"

fun insert_by_key :: "jv \<Rightarrow> obj \<Rightarrow> (jv \<times> obj) list \<Rightarrow> (jv \<times> obj) list" where
  "insert_by_key k v [] = [(k, v)]"
| "insert_by_key k v (p # ps) =
     (if key_less k (fst p) then (k, v) # p # ps else p # insert_by_key k v ps)"

fun replace_by_key :: "jv \<Rightarrow> obj \<Rightarrow> (jv \<times> obj) list \<Rightarrow> (jv \<times> obj) list" where
  "replace_by_key k v [] = []"
| "replace_by_key k v (p # ps) =
     (if fst p = k then (k, v) # ps else p # replace_by_key k v ps)"

text \<open>
  The key generator. A generated key is the current number, which then grows by one;
  beyond \<open>2^53\<close> the generator fails. Storing a record under an explicit numeric key at
  or above the current number moves the generator past that key.
\<close>

definition MAX_KEY :: int where
  "MAX_KEY = 9007199254740992"

definition bump_keygen :: "store_config \<Rightarrow> jv \<Rightarrow> int \<Rightarrow> int" where
  "bump_keygen cfg k g =
     (case k of
        JNum n \<Rightarrow>
          (if autoIncrement cfg \<and> g \<le> \<lfloor>min n (of_int MAX_KEY)\<rfloor>
           then \<lfloor>min n (of_int MAX_KEY)\<rfloor> + 1 else g)
      | _ \<Rightarrow> g)"

text \<open>
  \<open>store.add(value)\<close> and \<open>store.put(value)\<close> on a store with an in-line key: the key is
  the value's property at the key path; it must be a valid key (DataError). Without
  that property, an auto-increment store generates the key and writes it into the
  value, and any other store raises DataError. \<open>add\<close> fails with ConstraintError when a
  record with the key exists; \<open>put\<close> replaces that record. Both return the key. A failed
  request leaves the store as it was.
\<close>

definition store_add :: "store_config \<Rightarrow> obj \<Rightarrow> store \<Rightarrow> error + (jv \<times> store)" where
  "store_add cfg v st =
     (case v (keyPath cfg) of
        Some k \<Rightarrow>
          if \<not> valid_key k then Inl DataError
          else if store_get st k \<noteq> None then Inl ConstraintError
          else Inr (k, st\<lparr>items := insert_by_key k v (items st),
                         keygen := bump_keygen cfg k (keygen st)\<rparr>)
      | None \<Rightarrow>
          if \<not> autoIncrement cfg then Inl DataError
          else if MAX_KEY < keygen st then Inl ConstraintError
          else
            let k = JNum (of_int (keygen st)) in
            if store_get st k \<noteq> None then Inl ConstraintError
            else Inr (k, st\<lparr>items := insert_by_key k (v(keyPath cfg \<mapsto> k)) (items st),
                           keygen := keygen st + 1\<rparr>))"

definition store_put :: "store_config \<Rightarrow> obj \<Rightarrow> store \<Rightarrow> error + (jv \<times> store)" where
  "store_put cfg v st =
     (case v (keyPath cfg) of
        Some k \<Rightarrow>
          if \<not> valid_key k then Inl DataError
          else if store_get st k \<noteq> None
          then Inr (k, st\<lparr>items := replace_by_key k v (items st),
                         keygen := bump_keygen cfg k (keygen st)\<rparr>)
          else Inr (k, st\<lparr>items := insert_by_key k v (items st),
                         keygen := bump_keygen cfg k (keygen st)\<rparr>)
      | None \<Rightarrow>
          if \<not> autoIncrement cfg then Inl DataError
          else if MAX_KEY < keygen st then Inl ConstraintError
          else
            let k = JNum (of_int (keygen st)) in
            if store_get st k \<noteq> None
            then Inr (k, st\<lparr>items := replace_by_key k (v(keyPath cfg \<mapsto> k)) (items st),
                           keygen := keygen st + 1\<rparr>)
            else Inr (k, st\<lparr>items := insert_by_key k (v(keyPath cfg \<mapsto> k)) (items st),
                           keygen := keygen st + 1\<rparr>))"

section \<open>The environment and the state of the page\<close>

text \<open>
  The dialogs of \<open>confirm\<close>: the version warning, with the version of the backup, and
  the import preview, with the backup's timestamp and its three metadata counts.
\<close>

datatype prompt =
    VersionPrompt "jv option"
  | ImportPrompt "jv option" "jv option" "jv option" "jv option"

text \<open>
  What the platform decides: the successive readings of \<open>Date.now()\<close>, the user's
  answer to each dialog, and the library functions whose results the code stores but
  never inspects (\<open>Date.prototype.toISOString\<close>, the length of the text of
  \<open>JSON.stringify\<close>, \<open>navigator.userAgent\<close>, the comparison \<open>v > 0\<close> on a value that
  is not a number, boolean or null, and the clamping and rounding of \<open>setScale\<close>, which is
  floating-point arithmetic on the scale descriptor).
\<close>

record env =
  clock :: "nat \<Rightarrow> int"
  confirm :: "prompt \<Rightarrow> bool"
  toISOString :: "int \<Rightarrow> string"
  stringify_length :: "jv \<Rightarrow> nat"
  userAgent :: string
  coerced_gt_zero :: "jv \<Rightarrow> bool"
  setScale :: "jv \<Rightarrow> jv \<Rightarrow> jv \<times> jv"

text \<open>
  A text kept in \<open>localStorage\<close>: empty, not JSON, or a JSON text, given by the value
  that \<open>JSON.parse\<close> returns for it.
\<close>

datatype stored_text = EmptyText | NotJson | JsonText jv

text \<open>
  The state: the database (assumed open: \<open>getDB\<close> succeeds), the number of readings of
  the clock so far, the dialogs shown, the files offered for download (the name of
  each and, for its JSON text, the value that \<open>JSON.parse\<close> returns for that text),
  the global \<open>theme\<close> object with \<open>currentScale\<close>, and \<open>localStorage\<close>.
\<close>

record world =
  db :: database
  tick :: nat
  asked :: "prompt list"
  downloads :: "(string \<times> jv) list"
  theme_colors :: jv
  theme_typography :: jv
  theme_scale :: jv
  currentScale :: jv
  localStorage :: "string \<Rightarrow> stored_text option"

definition Date_now :: "env \<Rightarrow> world \<Rightarrow> int \<times> world" where
  "Date_now e w = (clock e (tick w), w\<lparr>tick := tick w + 1\<rparr>)"

subsection \<open>database.js\<close>

text \<open>
  \<open>database.transaction([storeName], ...)\<close> throws NotFoundError for a name that is not
  an object store; every function below catches it and rejects with it.
\<close>

definition open_store :: "string \<Rightarrow> world \<Rightarrow> (store_config \<times> store) option" where
  "open_store storeName w =
     (case STORES storeName of
        None \<Rightarrow> None
      | Some cfg \<Rightarrow>
          (case get_store storeName (db w) of None \<Rightarrow> None | Some st \<Rightarrow> Some (cfg, st)))"

definition addItem :: "env \<Rightarrow> string \<Rightarrow> obj \<Rightarrow> world \<Rightarrow> (error + jv) \<times> world" where
  "addItem e storeName data w =
     (case open_store storeName w of
        None \<Rightarrow> (Inl NotFoundError, w)
      | Some (cfg, st) \<Rightarrow>
          let (data1, w1) =
                (if \<not> truthy_opt (data ''timestamp'')
                 then (let (t, w') = Date_now e w in (data(''timestamp'' \<mapsto> JNum (of_int t)), w'))
                 else (data, w))
          in (case store_add cfg data1 st of
                Inl err \<Rightarrow> (Inl err, w1)
              | Inr (k, st') \<Rightarrow> (Inr k, w1\<lparr>db := put_store storeName st' (db w1)\<rparr>)))"

definition getItem :: "string \<Rightarrow> jv \<Rightarrow> world \<Rightarrow> error + obj option" where
  "getItem storeName ident w =
     (case open_store storeName w of
        None \<Rightarrow> Inl NotFoundError
      | Some (cfg, st) \<Rightarrow>
          if \<not> valid_key ident then Inl DataError else Inr (store_get st ident))"

definition getAllItems :: "string \<Rightarrow> world \<Rightarrow> error + obj list" where
  "getAllItems storeName w =
     (case open_store storeName w of
        None \<Rightarrow> Inl NotFoundError
      | Some (cfg, st) \<Rightarrow> Inr (map snd (items st)))"

text \<open>
  \<open>updateItem\<close>: the record is read first; \<open>{...getRequest.result, ...data, modified:
  Date.now()}\<close> is the stored record overridden by the own properties of the patch and
  then by \<open>modified\<close>. \<open>updatedData[store.keyPath] !== id\<close> compares an array key by
  identity, so for such a key the assignment always runs; it then writes the value the
  property already has, which the comparison by value below leaves in place.
\<close>

definition updateItem ::
  "env \<Rightarrow> string \<Rightarrow> jv \<Rightarrow> jv \<Rightarrow> world \<Rightarrow> (error + obj) \<times> world" where
  "updateItem e storeName ident data w =
     (case open_store storeName w of
        None \<Rightarrow> (Inl NotFoundError, w)
      | Some (cfg, st) \<Rightarrow>
          if \<not> valid_key ident then (Inl DataError, w)
          else
            (case store_get st ident of
               None \<Rightarrow> (Inl (ItemNotFound ident storeName), w)
             | Some existing \<Rightarrow>
                 let (t, w1) = Date_now e w;
                     merged = (existing ++ own_props data)(''modified'' \<mapsto> JNum (of_int t));
                     updatedData =
                       (if keyPath cfg \<noteq> [] \<and> merged (keyPath cfg) \<noteq> Some ident
                        then merged(keyPath cfg \<mapsto> ident) else merged)
                 in (case store_put cfg updatedData st of
                       Inl err \<Rightarrow> (Inl err, w1)
                     | Inr (k, st') \<Rightarrow>
                         (Inr updatedData, w1\<lparr>db := put_store storeName st' (db w1)\<rparr>))))"

definition clearStore :: "string \<Rightarrow> world \<Rightarrow> (error + unit) \<times> world" where
  "clearStore storeName w =
     (case open_store storeName w of
        None \<Rightarrow> (Inl NotFoundError, w)
      | Some (cfg, st) \<Rightarrow> (Inr (), w\<lparr>db := put_store storeName (st\<lparr>items := []\<rparr>) (db w)\<rparr>))"

section \<open>The theme facade (theme.js)\<close>

text \<open>
  \<open>loadTheme\<close> runs at the end of an import and can write to the \<open>themes\<close> store, so it
  is part of what an import does to the collections. The repository holds an earlier
  \<open>theme.js\<close> that keeps the theme in \<open>localStorage\<close> only; the one modelled here is the
  one that reads and writes the \<open>themes\<close> store through \<open>getItem\<close>, \<open>updateItem\<close> and
  \<open>addItem\<close>, which is what \<open>importData\<close> reloads the imported theme from. The fields of
  a loaded theme replace the globals only when they are truthy. \<open>applyTheme\<close> and
  \<open>setScale\<close> write to the document, which is not part of the state; the conversions
  to text and to number that they apply to the fields of the theme are not modelled.
\<close>

definition apply_theme_data :: "jv \<Rightarrow> world \<Rightarrow> error + world" where
  "apply_theme_data themeData w =
     (case read_prop (Some themeData) ''colors'' of
        Inl err \<Rightarrow> Inl err
      | Inr colors \<Rightarrow>
          let w1 = (case colors of
                      Some c \<Rightarrow> if truthy c then w\<lparr>theme_colors := c\<rparr> else w
                    | None \<Rightarrow> w)
          in (case read_prop (Some themeData) ''typography'' of
                Inl err \<Rightarrow> Inl err
              | Inr typography \<Rightarrow>
                  let w2 = (case typography of
                              Some t \<Rightarrow> if truthy t then w1\<lparr>theme_typography := t\<rparr> else w1
                            | None \<Rightarrow> w1)
                  in (case read_prop (Some themeData) ''scale'' of
                        Inl err \<Rightarrow> Inl err
                      | Inr None \<Rightarrow> Inr w2
                      | Inr (Some s) \<Rightarrow>
                          if \<not> truthy s then Inr w2
                          else
                            (case read_prop (Some s) ''current'' of
                               Inl err \<Rightarrow> Inl err
                             | Inr cur \<Rightarrow>
                                 Inr (w2\<lparr>theme_scale := s,
                                        currentScale :=
                                          (case cur of
                                             Some c \<Rightarrow> if truthy c then c else JNum 1
                                           | None \<Rightarrow> JNum 1)\<rparr>)))))"

definition theme_record :: "world \<Rightarrow> obj" where
  "theme_record w =
     [''id'' \<mapsto> JStr ''default'',
      ''colors'' \<mapsto> theme_colors w,
      ''typography'' \<mapsto> theme_typography w,
      ''scale'' \<mapsto> JObj ((own_props (theme_scale w))(''current'' \<mapsto> currentScale w))]"

text \<open>
  \<open>saveTheme\<close>: update the record \<open>default\<close> of \<open>themes\<close> or add it, then mirror it into
  \<open>localStorage\<close>; when the database rejects, write the record to \<open>localStorage\<close> only.
  \<open>localStorage\<close> itself is assumed to accept every write; what it keeps is the text
  of \<open>JSON.stringify\<close>. \<open>addItem\<close> writes a missing timestamp into the object it is
  given, so after an add the mirrored object carries the timestamp that \<open>addItem\<close>
  assigned.
\<close>

definition saveTheme :: "env \<Rightarrow> world \<Rightarrow> bool \<times> world" where
  "saveTheme e w =
     (let (t, w1) = Date_now e w;
          themeData = (theme_record w)(''timestamp'' \<mapsto> JNum (of_int t), ''version'' \<mapsto> JStr ''9.1'');
          fallback = (\<lambda>w'. let (t', w'') = Date_now e w' in
                       (True, w''\<lparr>localStorage := (localStorage w'')(''ods_theme'' \<mapsto>
                          JsonText (reparse (JObj ((theme_record w'')(''timestamp'' \<mapsto>
                            JNum (of_int t'))))))\<rparr>))
      in (case getItem ''themes'' (JStr ''default'') w1 of
            Inl err \<Rightarrow> fallback w1
          | Inr existingTheme \<Rightarrow>
              (case (if existingTheme \<noteq> None
                     then (case updateItem e ''themes'' (JStr ''default'') (JObj themeData) w1 of
                             (Inl err, w2) \<Rightarrow> (Inl err, w2)
                           | (Inr u, w2) \<Rightarrow> (Inr themeData, w2))
                     else (case addItem e ''themes'' themeData w1 of
                             (Inl err, w2) \<Rightarrow> (Inl err, w2)
                           | (Inr k, w2) \<Rightarrow>
                               (Inr (if truthy_opt (themeData ''timestamp'') then themeData
                                     else themeData(''timestamp'' \<mapsto>
                                            JNum (of_int (clock e (tick w1))))), w2)))
               of
                 (Inl err, w2) \<Rightarrow> fallback w2
               | (Inr saved, w2) \<Rightarrow>
                   (True, w2\<lparr>localStorage := (localStorage w2)(''ods_theme_backup'' \<mapsto>
                             JsonText (reparse (JObj saved)))\<rparr>))))"

text \<open>The text under a key of \<open>localStorage\<close>, when it is there and not empty.\<close>

definition stored_text_of :: "world \<Rightarrow> string \<Rightarrow> stored_text option" where
  "stored_text_of w name =
     (case localStorage w name of
        None \<Rightarrow> None
      | Some EmptyText \<Rightarrow> None
      | Some txt \<Rightarrow> Some txt)"

text \<open>
  The last resort of \<open>loadTheme\<close>, after a failure: read \<open>ods_theme\<close> or else
  \<open>ods_theme_backup\<close> from \<open>localStorage\<close>; a text that does not parse or a \<open>null\<close> is
  dropped.
\<close>

definition loadTheme_fallback :: "world \<Rightarrow> world" where
  "loadTheme_fallback w =
     (case (case stored_text_of w ''ods_theme'' of
              Some txt \<Rightarrow> Some txt
            | None \<Rightarrow> stored_text_of w ''ods_theme_backup'') of
        Some (JsonText themeData) \<Rightarrow>
          (case apply_theme_data themeData w of Inl err \<Rightarrow> w | Inr w' \<Rightarrow> w')
      | _ \<Rightarrow> w)"

definition loadTheme :: "env \<Rightarrow> world \<Rightarrow> world" where
  "loadTheme e w =
     (case getItem ''themes'' (JStr ''default'') w of
        Inl err \<Rightarrow> loadTheme_fallback w
      | Inr (Some savedTheme) \<Rightarrow>
          (case apply_theme_data (JObj savedTheme) w of
             Inl err \<Rightarrow> loadTheme_fallback w
           | Inr w' \<Rightarrow> w')
      | Inr None \<Rightarrow>
          (case stored_text_of w ''ods_theme'' of
             Some NotJson \<Rightarrow> loadTheme_fallback w
           | Some (JsonText themeData) \<Rightarrow>
               (case apply_theme_data themeData w of
                  Inl err \<Rightarrow> loadTheme_fallback w
                | Inr w1 \<Rightarrow>
                    let (ok, w2) = saveTheme e w1
                    in w2\<lparr>localStorage := (localStorage w2)(''ods_theme'' := None)\<rparr>)
           | _ \<Rightarrow> snd (saveTheme e w)))"

section \<open>Export and import (backup.js)\<close>

definition BACKUP_VERSION :: string where
  "BACKUP_VERSION = ''9.1''"

definition BACKUP_MAGIC :: string where
  "BACKUP_MAGIC = ''ODS_BACKUP_v9''"

definition count_of :: "'a list \<Rightarrow> jv" where
  "count_of xs = JNum (of_nat (length xs))"

text \<open>
  The backup object of \<open>exportData\<close>, as it is in memory before \<open>JSON.stringify\<close>.
\<close>

definition backup_document ::
  "env \<Rightarrow> int \<Rightarrow> obj list \<Rightarrow> obj list \<Rightarrow> obj list \<Rightarrow> jv" where
  "backup_document e t ths ops wss =
     JObj [''magic'' \<mapsto> JStr BACKUP_MAGIC,
           ''version'' \<mapsto> JStr BACKUP_VERSION,
           ''timestamp'' \<mapsto> JNum (of_int t),
           ''date'' \<mapsto> JStr (toISOString e t),
           ''data'' \<mapsto> JObj [''themes'' \<mapsto> JArr (map JObj ths),
                             ''operations'' \<mapsto> JArr (map JObj ops),
                             ''workspaces'' \<mapsto> JArr (map JObj wss)],
           ''metadata'' \<mapsto> JObj [''themesCount'' \<mapsto> count_of ths,
                                 ''operationsCount'' \<mapsto> count_of ops,
                                 ''workspacesCount'' \<mapsto> count_of wss,
                                 ''exportedBy'' \<mapsto> JStr ''ODS v9.1'',
                                 ''userAgent'' \<mapsto> JStr (userAgent e)]]"

definition backup_filename :: "env \<Rightarrow> int \<Rightarrow> string" where
  "backup_filename e t =
     ''ods-backup-''
       @ map (\<lambda>c. if c = CHR '':'' then CHR ''-'' else c) (take 19 (toISOString e t))
       @ ''.json''"

text \<open>
  \<open>exportData\<close> catches every failure and returns \<open>{success: false, error}\<close>, here
  \<open>Inl\<close>; \<open>{success: true, filename}\<close> is \<open>Inr filename\<close>. The file that is
  downloaded holds \<open>JSON.stringify(backup, null, 2)\<close>; the download happens before the
  summary record is added to \<open>backups\<close>.
\<close>

definition exportData :: "env \<Rightarrow> world \<Rightarrow> (error + string) \<times> world" where
  "exportData e w =
     (case getAllItems ''themes'' w of Inl err \<Rightarrow> (Inl err, w) | Inr ths \<Rightarrow>
      (case getAllItems ''operations'' w of Inl err \<Rightarrow> (Inl err, w) | Inr ops \<Rightarrow>
      (case getAllItems ''workspaces'' w of Inl err \<Rightarrow> (Inl err, w) | Inr wss \<Rightarrow>
         let (t, w1) = Date_now e w;
             backup = backup_document e t ths ops wss;
             filename = backup_filename e t;
             w2 = w1\<lparr>downloads := downloads w1 @ [(filename, reparse backup)]\<rparr>
         in (case addItem e ''backups''
                    [''timestamp'' \<mapsto> JNum (of_int t),
                     ''version'' \<mapsto> JStr BACKUP_VERSION,
                     ''filename'' \<mapsto> JStr filename,
                     ''size'' \<mapsto> JNum (of_nat (stringify_length e backup)),
                     ''counts'' \<mapsto> JObj [''themes'' \<mapsto> count_of ths,
                                         ''operations'' \<mapsto> count_of ops,
                                         ''workspaces'' \<mapsto> count_of wss]] w2 of
               (Inl err, w3) \<Rightarrow> (Inl err, w3)
             | (Inr k, w3) \<Rightarrow> (Inr filename, w3)))))"

subsection \<open>Validation and version check\<close>

datatype validation = Valid | Invalid string

text \<open>\<open>typeof v === 'object'\<close>: true of \<open>null\<close>, arrays and objects.\<close>

fun typeof_object :: "jv option \<Rightarrow> bool" where
  "typeof_object (Some JNull) = True"
| "typeof_object (Some (JArr xs)) = True"
| "typeof_object (Some (JObj ps)) = True"
| "typeof_object v = False"

definition validateBackup :: "jv \<Rightarrow> error + validation" where
  "validateBackup backup =
     (case read_prop (Some backup) ''magic'' of Inl err \<Rightarrow> Inl err | Inr magic \<Rightarrow>
        if \<not> truthy_opt magic \<or> magic \<noteq> Some (JStr BACKUP_MAGIC)
        then Inr (Invalid ''Invalid backup file format'')
        else
     (case read_prop (Some backup) ''version'' of Inl err \<Rightarrow> Inl err | Inr version \<Rightarrow>
        if \<not> truthy_opt version
        then Inr (Invalid ''Missing version information'')
        else
     (case read_prop (Some backup) ''timestamp'' of Inl err \<Rightarrow> Inl err | Inr timestamp \<Rightarrow>
        if \<not> truthy_opt timestamp
        then Inr (Invalid ''Missing timestamp'')
        else
     (case read_prop (Some backup) ''data'' of Inl err \<Rightarrow> Inl err | Inr data \<Rightarrow>
        if \<not> truthy_opt data
        then Inr (Invalid ''Missing data section'')
        else if \<not> typeof_object data
        then Inr (Invalid ''Invalid data structure'')
        else Inr Valid))))"

text \<open>\<open>s.split(c)\<close> for a one-character separator, and \<open>a[0]\<close>.\<close>

fun split_on :: "char \<Rightarrow> string \<Rightarrow> string list" where
  "split_on c [] = [[]]"
| "split_on c (x # xs) =
     (if x = c then [] # split_on c xs
      else (case split_on c xs of [] \<Rightarrow> [[x]] | p # ps \<Rightarrow> (x # p) # ps))"

definition first_elem :: "'a list \<Rightarrow> 'a option" where
  "first_elem xs = (case xs of [] \<Rightarrow> None | x # rest \<Rightarrow> Some x)"

text \<open>
  \<open>isCompatibleVersion\<close>. A truthy version that is not a string has no \<open>split\<close> method:
  the call throws a TypeError.
\<close>

definition isCompatibleVersion :: "jv option \<Rightarrow> error + bool" where
  "isCompatibleVersion version =
     (if \<not> truthy_opt version then Inr False
      else
        (case version of
           Some (JStr s) \<Rightarrow>
             if first_elem (split_on CHR ''.'' BACKUP_VERSION) \<noteq> first_elem (split_on CHR ''.'' s)
             then Inr False
             else Inr True
         | _ \<Rightarrow> Inl TypeError))"

subsection \<open>Import\<close>

text \<open>
  The two dialogs of \<open>importData\<close>. The version dialog is shown only for an incompatible
  version. Building the text of the preview reads \<open>backup.metadata.themesCount\<close>, which
  throws a TypeError when the document has no \<open>metadata\<close>.
\<close>

definition CANCELLED :: error where
  "CANCELLED = Error ''Import cancelled by user''"

definition ask :: "env \<Rightarrow> prompt \<Rightarrow> world \<Rightarrow> (error + unit) \<times> world" where
  "ask e p w =
     (let w1 = w\<lparr>asked := asked w @ [p]\<rparr>
      in if confirm e p then (Inr (), w1) else (Inl CANCELLED, w1))"

definition check_version :: "env \<Rightarrow> jv \<Rightarrow> world \<Rightarrow> (error + unit) \<times> world" where
  "check_version e backup w =
     (case read_prop (Some backup) ''version'' of Inl err \<Rightarrow> (Inl err, w) | Inr version \<Rightarrow>
      (case isCompatibleVersion version of
         Inl err \<Rightarrow> (Inl err, w)
       | Inr True \<Rightarrow> (Inr (), w)
       | Inr False \<Rightarrow> ask e (VersionPrompt version) w))"

definition confirm_import :: "env \<Rightarrow> jv \<Rightarrow> world \<Rightarrow> (error + unit) \<times> world" where
  "confirm_import e backup w =
     (case read_prop (Some backup) ''timestamp'' of Inl err \<Rightarrow> (Inl err, w) | Inr timestamp \<Rightarrow>
      (case read_prop (Some backup) ''metadata'' of Inl err \<Rightarrow> (Inl err, w) | Inr metadata \<Rightarrow>
      (case read_prop metadata ''themesCount'' of Inl err \<Rightarrow> (Inl err, w) | Inr c1 \<Rightarrow>
      (case read_prop metadata ''operationsCount'' of Inl err \<Rightarrow> (Inl err, w) | Inr c2 \<Rightarrow>
      (case read_prop metadata ''workspacesCount'' of Inl err \<Rightarrow> (Inl err, w) | Inr c3 \<Rightarrow>
         ask e (ImportPrompt timestamp c1 c2 c3) w)))))"

text \<open>
  The guard \<open>v && v.length > 0\<close> and the loop \<open>for (const x of v)\<close> over a section of
  \<open>backup.data\<close>. An array has its length and its elements; a string has its length and
  its characters; an object has the \<open>length\<close> it declares, if any, and cannot be
  iterated (TypeError); a boolean or number has no \<open>length\<close>. \<open>NaN > 0\<close> is false.
\<close>

fun length_of :: "jv \<Rightarrow> jv option" where
  "length_of (JArr xs) = Some (count_of xs)"
| "length_of (JStr s) = Some (count_of s)"
| "length_of (JObj ps) = ps ''length''"
| "length_of v = None"

fun gt_zero :: "env \<Rightarrow> jv option \<Rightarrow> bool" where
  "gt_zero e None = False"
| "gt_zero e (Some JNull) = False"
| "gt_zero e (Some (JBool b)) = b"
| "gt_zero e (Some (JNum n)) = (0 < n)"
| "gt_zero e (Some JNaN) = False"
| "gt_zero e (Some v) = coerced_gt_zero e v"

fun has_records :: "env \<Rightarrow> jv option \<Rightarrow> bool" where
  "has_records e None = False"
| "has_records e (Some v) = (truthy v \<and> gt_zero e (length_of v))"

fun iterate :: "jv \<Rightarrow> error + jv list" where
  "iterate (JArr xs) = Inr xs"
| "iterate (JStr s) = Inr (map (\<lambda>c. JStr [c]) s)"
| "iterate v = Inl TypeError"

definition records_of :: "env \<Rightarrow> jv option \<Rightarrow> error + jv list" where
  "records_of e entry =
     (case entry of
        None \<Rightarrow> Inr []
      | Some v \<Rightarrow> if has_records e entry then iterate v else Inr [])"

text \<open>
  \<open>addItem('themes', theme)\<close> for an element of the document. \<open>addItem\<close> reads
  \<open>data.timestamp\<close>: a TypeError on \<open>null\<close>. On a boolean, number, string or array the
  read gives \<open>undefined\<close>, the clock is read, and \<open>store.add\<close> finds no \<open>id\<close> on the
  value: a DataError.
\<close>

definition add_theme :: "env \<Rightarrow> jv \<Rightarrow> world \<Rightarrow> (error + jv) \<times> world" where
  "add_theme e theme w =
     (case theme of
        JObj data \<Rightarrow> addItem e ''themes'' data w
      | JNull \<Rightarrow> (Inl TypeError, w)
      | _ \<Rightarrow> (Inl DataError, snd (Date_now e w)))"

fun import_themes :: "env \<Rightarrow> jv list \<Rightarrow> nat \<Rightarrow> world \<Rightarrow> (error + nat) \<times> world" where
  "import_themes e [] n w = (Inr n, w)"
| "import_themes e (theme # rest) n w =
     (case add_theme e theme w of
        (Inl err, w') \<Rightarrow> (Inl err, w')
      | (Inr k, w') \<Rightarrow> import_themes e rest (n + 1) w')"

text \<open>
  The loops over operations and workspaces: \<open>const { id, ...rest } = x\<close> throws a
  TypeError on \<open>null\<close> and otherwise copies the own properties of \<open>x\<close> except \<open>id\<close>.
\<close>

definition add_without_id :: "env \<Rightarrow> string \<Rightarrow> jv \<Rightarrow> world \<Rightarrow> (error + jv) \<times> world" where
  "add_without_id e storeName x w =
     (case x of
        JNull \<Rightarrow> (Inl TypeError, w)
      | _ \<Rightarrow> addItem e storeName ((own_props x)(''id'' := None)) w)"

fun import_without_id ::
  "env \<Rightarrow> string \<Rightarrow> jv list \<Rightarrow> nat \<Rightarrow> world \<Rightarrow> (error + nat) \<times> world" where
  "import_without_id e storeName [] n w = (Inr n, w)"
| "import_without_id e storeName (x # rest) n w =
     (case add_without_id e storeName x w of
        (Inl err, w') \<Rightarrow> (Inl err, w')
      | (Inr k, w') \<Rightarrow> import_without_id e storeName rest (n + 1) w')"

record imported =
  imported_themes :: nat
  imported_operations :: nat
  imported_workspaces :: nat

text \<open>The three \<open>clearStore\<close> calls.\<close>

definition clear_collections :: "world \<Rightarrow> (error + unit) \<times> world" where
  "clear_collections w =
     (case clearStore ''themes'' w of (Inl err, w1) \<Rightarrow> (Inl err, w1) | (Inr u1, w1) \<Rightarrow>
      (case clearStore ''operations'' w1 of (Inl err, w2) \<Rightarrow> (Inl err, w2) | (Inr u2, w2) \<Rightarrow>
         clearStore ''workspaces'' w2))"

text \<open>The three loops that insert the records of the document.\<close>

definition insert_collections :: "env \<Rightarrow> jv \<Rightarrow> world \<Rightarrow> (error + imported) \<times> world" where
  "insert_collections e backup w =
     (case read_prop (Some backup) ''data'' of Inl err \<Rightarrow> (Inl err, w) | Inr data \<Rightarrow>
      (case read_prop data ''themes'' of Inl err \<Rightarrow> (Inl err, w) | Inr s1 \<Rightarrow>
      (case records_of e s1 of Inl err \<Rightarrow> (Inl err, w) | Inr ths \<Rightarrow>
      (case import_themes e ths 0 w of (Inl err, w1) \<Rightarrow> (Inl err, w1) | (Inr n1, w1) \<Rightarrow>
      (case read_prop data ''operations'' of Inl err \<Rightarrow> (Inl err, w1) | Inr s2 \<Rightarrow>
      (case records_of e s2 of Inl err \<Rightarrow> (Inl err, w1) | Inr ops \<Rightarrow>
      (case import_without_id e ''operations'' ops 0 w1 of
         (Inl err, w2) \<Rightarrow> (Inl err, w2) | (Inr n2, w2) \<Rightarrow>
      (case read_prop data ''workspaces'' of Inl err \<Rightarrow> (Inl err, w2) | Inr s3 \<Rightarrow>
      (case records_of e s3 of Inl err \<Rightarrow> (Inl err, w2) | Inr wss \<Rightarrow>
      (case import_without_id e ''workspaces'' wss 0 w2 of
         (Inl err, w3) \<Rightarrow> (Inl err, w3)
       | (Inr n3, w3) \<Rightarrow>
           (Inr \<lparr>imported_themes = n1, imported_operations = n2, imported_workspaces = n3\<rparr>,
            w3)))))))))))"

text \<open>The summary record of an import, added to \<open>backups\<close>.\<close>

definition record_import ::
  "env \<Rightarrow> string \<Rightarrow> jv \<Rightarrow> imported \<Rightarrow> world \<Rightarrow> (error + jv) \<times> world" where
  "record_import e fileName backup n w =
     (let (t, w1) = Date_now e w
      in (case read_prop (Some backup) ''version'' of Inl err \<Rightarrow> (Inl err, w1) | Inr version \<Rightarrow>
         (case read_prop (Some backup) ''timestamp'' of Inl err \<Rightarrow> (Inl err, w1) | Inr timestamp \<Rightarrow>
            addItem e ''backups''
              (([''timestamp'' \<mapsto> JNum (of_int t),
                 ''type'' \<mapsto> JStr ''import'',
                 ''filename'' \<mapsto> JStr fileName,
                 ''imported'' \<mapsto> JObj [''themes'' \<mapsto> JNum (of_nat (imported_themes n)),
                                       ''operations'' \<mapsto> JNum (of_nat (imported_operations n)),
                                       ''workspaces'' \<mapsto> JNum (of_nat (imported_workspaces n))]]
                   (''version'' := version))
                   (''originalTimestamp'' := timestamp)) w1)))"

text \<open>
  \<open>applyTheme(theme)\<close> writes style properties only; \<open>setScale(currentScale)\<close> stores
  the rounded scale in \<open>currentScale\<close> and in \<open>theme.scale.current\<close>.
\<close>

definition reapply_theme :: "env \<Rightarrow> world \<Rightarrow> world" where
  "reapply_theme e w =
     (let w1 = loadTheme e w;
          (s, c) = setScale e (theme_scale w1) (currentScale w1)
      in w1\<lparr>theme_scale := s, currentScale := c\<rparr>)"

text \<open>
  What \<open>importData\<close> does once both dialogs are accepted. The result of the pre-import
  \<open>exportData\<close> is bound to \<open>preImportBackup\<close> and only its \<open>filename\<close> is logged.
\<close>

definition import_confirmed ::
  "env \<Rightarrow> string \<Rightarrow> jv \<Rightarrow> world \<Rightarrow> (error + imported) \<times> world" where
  "import_confirmed e fileName backup w =
     (let (preImportBackup, w1) = exportData e w
      in (case clear_collections w1 of (Inl err, w2) \<Rightarrow> (Inl err, w2) | (Inr u, w2) \<Rightarrow>
         (case insert_collections e backup w2 of (Inl err, w3) \<Rightarrow> (Inl err, w3) | (Inr n, w3) \<Rightarrow>
         (case record_import e fileName backup n w3 of
            (Inl err, w4) \<Rightarrow> (Inl err, w4)
          | (Inr k, w4) \<Rightarrow> (Inr n, reapply_theme e w4)))))"

text \<open>
  \<open>importData\<close>, from the value that \<open>JSON.parse\<close> returns for the text of the file
  (a file that cannot be read or parsed fails before). \<open>Inl err\<close> is
  \<open>{success: false, error: err.message}\<close> and \<open>Inr n\<close> is \<open>{success: true, imported: n}\<close>.
\<close>

definition import_after_version_check ::
  "env \<Rightarrow> string \<Rightarrow> jv \<Rightarrow> world \<Rightarrow> (error + imported) \<times> world" where
  "import_after_version_check e fileName backup w =
     (case confirm_import e backup w of
        (Inl err, w1) \<Rightarrow> (Inl err, w1)
      | (Inr u, w1) \<Rightarrow> import_confirmed e fileName backup w1)"

definition importData ::
  "env \<Rightarrow> string \<Rightarrow> jv \<Rightarrow> world \<Rightarrow> (error + imported) \<times> world" where
  "importData e fileName backup w =
     (case validateBackup backup of
        Inl err \<Rightarrow> (Inl err, w)
      | Inr (Invalid msg) \<Rightarrow> (Inl (Error msg), w)
      | Inr Valid \<Rightarrow>
          (case check_version e backup w of
             (Inl err, w1) \<Rightarrow> (Inl err, w1)
           | (Inr u, w1) \<Rightarrow> import_after_version_check e fileName backup w1))"

section \<open>Example environment and states\<close>

text \<open>
  A clock that starts at 1000 and advances by one at each reading, and a user who
  accepts every dialog (\<open>example_env\<close>) or declines every dialog (\<open>declining_env\<close>).
\<close>

definition example_env :: env where
  "example_env =
     \<lparr>clock = (\<lambda>n. 1000 + int n),
      confirm = (\<lambda>p. True),
      toISOString = (\<lambda>t. ''2024-01-01T00:00:01.000Z''),
      stringify_length = (\<lambda>v. 0),
      userAgent = ''agent'',
      coerced_gt_zero = (\<lambda>v. False),
      setScale = (\<lambda>s c. (s, c))\<rparr>"

definition declining_env :: env where
  "declining_env = example_env\<lparr>confirm := (\<lambda>p. False)\<rparr>"

definition empty_store :: store where
  "empty_store = \<lparr>items = [], keygen = 1\<rparr>"

definition example_theme :: obj where
  "example_theme =
     [''id'' \<mapsto> JStr ''default'', ''colors'' \<mapsto> JStr ''green'', ''timestamp'' \<mapsto> JNum 900]"

definition example_operation :: obj where
  "example_operation =
     [''id'' \<mapsto> JNum 1, ''type'' \<mapsto> JStr ''task'', ''timestamp'' \<mapsto> JNum 950]"

definition example_db :: database where
  "example_db =
     \<lparr>themes = \<lparr>items = [(JStr ''default'', example_theme)], keygen = 1\<rparr>,
      operations = \<lparr>items = [(JNum 1, example_operation)], keygen = 2\<rparr>,
      workspaces = empty_store,
      backups = empty_store\<rparr>"

definition example_world :: world where
  "example_world =
     \<lparr>db = example_db,
      tick = 0,
      asked = [],
      downloads = [],
      theme_colors = JStr ''green'',
      theme_typography = JStr ''mono'',
      theme_scale = JObj [''current'' \<mapsto> JNum 1, ''min'' \<mapsto> JNum (1 / 4)],
      currentScale = JNum 1,
      localStorage = Map.empty\<rparr>"

text \<open>Records and documents used in the examples below.\<close>

definition dated_theme :: obj where
  "dated_theme = [''id'' \<mapsto> JStr ''dark'', ''timestamp'' \<mapsto> JNum 5]"

definition keyless_operation :: obj where
  "keyless_operation = [''type'' \<mapsto> JStr ''task'']"

definition rename_patch :: jv where
  "rename_patch = JObj [''id'' \<mapsto> JStr ''other'', ''colors'' \<mapsto> JStr ''amber'']"

definition document :: "string \<Rightarrow> jv \<Rightarrow> jv \<Rightarrow> jv" where
  "document version timestamp data =
     JObj [''magic'' \<mapsto> JStr BACKUP_MAGIC,
           ''version'' \<mapsto> JStr version,
           ''timestamp'' \<mapsto> timestamp,
           ''data'' \<mapsto> data,
           ''metadata'' \<mapsto> JObj Map.empty]"

definition empty_backup :: jv where
  "empty_backup = document ''9.1'' (JNum 5) (JObj Map.empty)"

text \<open>
  A state whose \<open>backups\<close> store already holds a record under the key 1000, the next
  reading of the example clock.
\<close>

definition clash_world :: world where
  "clash_world =
     example_world\<lparr>db := example_db\<lparr>backups :=
       \<lparr>items = [(JNum 1000, [''timestamp'' \<mapsto> JNum 1000])], keygen = 1\<rparr>\<rparr>\<rparr>"

text \<open>
  A state in which the theme \<open>default\<close> holds the scale \<open>NaN\<close>, as \<open>saveTheme\<close> stores
  it after \<open>setScale\<close> has computed the scale from a descriptor without a step.
\<close>

definition nan_theme :: obj where
  "nan_theme = example_theme(''scale'' \<mapsto> JObj [''current'' \<mapsto> JNaN])"

definition nan_world :: world where
  "nan_world =
     example_world\<lparr>db := example_db\<lparr>themes :=
       \<lparr>items = [(JStr ''default'', nan_theme)], keygen = 1\<rparr>\<rparr>\<rparr>"

text \<open>A state with no theme at all, as \<open>deleteTheme\<close> leaves it.\<close>

definition bare_world :: world where
  "bare_world = example_world\<lparr>db := example_db\<lparr>themes := empty_store\<rparr>\<rparr>"

section \<open>Export followed by import\<close>

text \<open>
  The document in the file that \<open>exportData\<close> offers for download in a state: what
  \<open>JSON.parse\<close> returns for the text of the last download after the call.
  (\<open>exportData\<close> always reaches the download in this model, since the three stores it
  reads exist.)
\<close>

definition exported_document :: "env \<Rightarrow> world \<Rightarrow> jv" where
  "exported_document e w = snd (last (downloads (snd (exportData e w))))"

text \<open>The records of a store in key order, each without its \<open>id\<close>.\<close>

definition records_without_id :: "store \<Rightarrow> obj list" where
  "records_without_id st = map (\<lambda>p. (snd p)(''id'' := None)) (items st)"

text \<open>
  The content of a store that has received the records \<open>rs\<close>, in this order, under
  keys generated from \<open>g\<close> on: each record under the next number, with that number as
  its \<open>id\<close>.
\<close>

fun renumbered :: "int \<Rightarrow> obj list \<Rightarrow> (jv \<times> obj) list" where
  "renumbered g [] = []"
| "renumbered g (r # rs) =
     (JNum (of_int g), r(''id'' \<mapsto> JNum (of_int g))) # renumbered (g + 1) rs"

section \<open>Predicates used in the statements\<close>

text \<open>
  \<open>page_kept w w'\<close>: nothing of the page outside the database and the clock has changed.
  \<open>only_store name w w'\<close>: every object store except \<open>name\<close> is as before.
\<close>

definition page_kept :: "world \<Rightarrow> world \<Rightarrow> bool" where
  "page_kept w w' \<longleftrightarrow>
     asked w' = asked w \<and> downloads w' = downloads w \<and> theme_colors w' = theme_colors w
     \<and> theme_typography w' = theme_typography w \<and> theme_scale w' = theme_scale w
     \<and> currentScale w' = currentScale w \<and> localStorage w' = localStorage w"

definition only_store :: "string \<Rightarrow> world \<Rightarrow> world \<Rightarrow> bool" where
  "only_store name w w' \<longleftrightarrow>
     (name \<noteq> ''themes'' \<longrightarrow> themes (db w') = themes (db w))
     \<and> (name \<noteq> ''operations'' \<longrightarrow> operations (db w') = operations (db w))
     \<and> (name \<noteq> ''workspaces'' \<longrightarrow> workspaces (db w') = workspaces (db w))
     \<and> (name \<noteq> ''backups'' \<longrightarrow> backups (db w') = backups (db w))"

text \<open>
  \<open>consistent_keys kp st\<close> is what IndexedDB maintains in a store with key path \<open>kp\<close>:
  the keys are valid and pairwise different, and each record holds its key at \<open>kp\<close>.
  \<open>timestamps_truthy st\<close>: every record of the store has a truthy \<open>timestamp\<close>.
  \<open>json_records st\<close>: every record of the store is a JSON value.
\<close>

definition consistent_keys :: "string \<Rightarrow> store \<Rightarrow> bool" where
  "consistent_keys kp st \<longleftrightarrow>
     distinct (map fst (items st))
     \<and> (\<forall>p \<in> set (items st). valid_key (fst p) \<and> (snd p) kp = Some (fst p))"

definition timestamps_truthy :: "store \<Rightarrow> bool" where
  "timestamps_truthy st \<longleftrightarrow> (\<forall>p \<in> set (items st). truthy_opt ((snd p) ''timestamp''))"

definition json_records :: "store \<Rightarrow> bool" where
  "json_records st \<longleftrightarrow> (\<forall>p \<in> set (items st). is_json (JObj (snd p)))"

section \<open>Facts about the stores\<close>

lemma map_of_insert_by_key:
  "map_of ps k = None \<Longrightarrow> map_of (insert_by_key k v ps) = (map_of ps)(k \<mapsto> v)"
proof (induction ps)
  case Nil
  then show ?case by simp
next
  case (Cons p ps)
  from Cons.prems have ne: "fst p \<noteq> k" and none: "map_of ps k = None"
    by (auto split: if_splits)
  show ?case
    using ne Cons.IH [OF none] by (auto simp: fun_upd_twist)
qed

lemma map_of_replace_by_key:
  "map_of ps k \<noteq> None \<Longrightarrow> map_of (replace_by_key k v ps) = (map_of ps)(k \<mapsto> v)"
proof (induction ps)
  case Nil
  then show ?case by simp
next
  case (Cons p ps)
  show ?case
  proof (cases "fst p = k")
    case True
    then show ?thesis by auto
  next
    case False
    with Cons.prems have "map_of ps k \<noteq> None" by auto
    from Cons.IH [OF this] False show ?thesis by (auto simp: fun_upd_twist)
  qed
qed

lemma get_put_store_same:
  "STORES name = Some cfg \<Longrightarrow> get_store name (put_store name st d) = Some st"
  by (auto simp: STORES_def get_store_def put_store_def split: if_splits)

lemma get_put_store_other:
  "other \<noteq> name \<Longrightarrow> get_store other (put_store name st d) = get_store other d"
  by (auto simp: get_store_def put_store_def)

lemma STORES_get_store:
  "STORES name = Some cfg \<Longrightarrow> \<exists>st. get_store name d = Some st"
  by (auto simp: STORES_def get_store_def split: if_splits)

lemma open_store_Some:
  "open_store name w = Some (cfg, st) \<longleftrightarrow>
     STORES name = Some cfg \<and> get_store name (db w) = Some st"
  by (auto simp: open_store_def split: option.splits)

lemma keyPath_STORES:
  "STORES name = Some cfg \<Longrightarrow> keyPath cfg = ''id'' \<or> keyPath cfg = ''timestamp''"
  by (auto simp: STORES_def split: if_splits)

lemmas example_defs =
  example_env_def empty_store_def example_theme_def example_operation_def
  example_db_def example_world_def

lemmas store_defs =
  open_store_def STORES_def get_store_def put_store_def store_get_def store_add_def
  store_put_def bump_keygen_def MAX_KEY_def Date_now_def

section \<open>update\<close>

text \<open>
  C5. When a record with the key exists, \<open>updateItem\<close> succeeds and returns the stored
  record overridden by the own properties of the patch, with \<open>modified\<close> set to the
  current time and the key field set to the original key, whatever the patch says for
  that field. The record is stored under the original key, every other key of the
  collection reads as before, and the other collections are untouched.
\<close>

theorem updateItem_merges:
  assumes "STORES storeName = Some cfg"
    and "getItem storeName ident w = Inr (Some existing)"
  shows "\<exists>w'. updateItem e storeName ident patch w =
            (Inr ((existing ++ own_props patch)
                    (''modified'' \<mapsto> JNum (of_int (clock e (tick w))), keyPath cfg \<mapsto> ident)), w')
          \<and> getItem storeName ident w' =
              Inr (Some ((existing ++ own_props patch)
                    (''modified'' \<mapsto> JNum (of_int (clock e (tick w))), keyPath cfg \<mapsto> ident)))
          \<and> (\<forall>k. k \<noteq> ident \<longrightarrow> getItem storeName k w' = getItem storeName k w)
          \<and> (\<forall>other. other \<noteq> storeName \<longrightarrow> get_store other (db w') = get_store other (db w))"
proof -
  obtain st where st: "get_store storeName (db w) = Some st"
    using STORES_get_store [OF assms(1)] by blast
  have op: "open_store storeName w = Some (cfg, st)"
    by (simp add: open_store_Some assms(1) st)
  have vk: "valid_key ident" and ex: "store_get st ident = Some existing"
    using assms(2) by (auto simp: getItem_def op split: if_splits)
  let ?merged = "(existing ++ own_props patch)(''modified'' \<mapsto> JNum (of_int (clock e (tick w))))"
  let ?updated = "?merged(keyPath cfg \<mapsto> ident)"
  have kp: "keyPath cfg \<noteq> []"
    using keyPath_STORES [OF assms(1)] by auto
  define st' where "st' = st\<lparr>items := replace_by_key ident ?updated (items st),
                         keygen := bump_keygen cfg ident (keygen st)\<rparr>"
  have put: "store_put cfg ?updated st = Inr (ident, st')"
    using vk ex by (simp add: store_put_def st'_def)
  define w' where "w' = (w\<lparr>tick := tick w + 1\<rparr>)\<lparr>db := put_store storeName st' (db w)\<rparr>"
  have res: "updateItem e storeName ident patch w = (Inr ?updated, w')"
  proof (cases "?merged (keyPath cfg) = Some ident")
    case True
    then have same: "?updated = ?merged" by (rule map_upd_triv)
    show ?thesis
      using vk ex put True unfolding same
      by (simp add: updateItem_def op Date_now_def Let_def w'_def)
  next
    case False
    show ?thesis
      using vk ex put False kp
      by (simp add: updateItem_def op Date_now_def Let_def w'_def)
  qed
  have op': "open_store storeName w' = Some (cfg, st')"
    by (simp add: open_store_Some assms(1) w'_def get_put_store_same [OF assms(1)])
  have m: "map_of (items st') = (map_of (items st))(ident \<mapsto> ?updated)"
    using ex by (simp add: st'_def store_get_def map_of_replace_by_key)
  have g1: "getItem storeName ident w' = Inr (Some ?updated)"
    using vk by (simp add: getItem_def op' store_get_def m)
  have g2: "\<forall>k. k \<noteq> ident \<longrightarrow> getItem storeName k w' = getItem storeName k w"
    by (simp add: getItem_def op op' store_get_def m)
  have g3: "\<forall>other. other \<noteq> storeName \<longrightarrow> get_store other (db w') = get_store other (db w)"
    by (simp add: w'_def get_put_store_other)
  from res g1 g2 g3 show ?thesis by blast
qed

theorem updateItem_merges_witness:
  "getItem ''themes'' (JStr ''default'') example_world = Inr (Some example_theme)
   \<and> (\<exists>w'. updateItem example_env ''themes'' (JStr ''default'') rename_patch example_world =
              (Inr [''id'' \<mapsto> JStr ''default'', ''colors'' \<mapsto> JStr ''amber'',
                    ''timestamp'' \<mapsto> JNum 900, ''modified'' \<mapsto> JNum 1000], w')
          \<and> getItem ''themes'' (JStr ''default'') w' =
              Inr (Some [''id'' \<mapsto> JStr ''default'', ''colors'' \<mapsto> JStr ''amber'',
                         ''timestamp'' \<mapsto> JNum 900, ''modified'' \<mapsto> JNum 1000]))"
proof -
  have cfg: "STORES ''themes'' = Some \<lparr>keyPath = ''id'', autoIncrement = False\<rparr>"
    by (simp add: STORES_def)
  have got: "getItem ''themes'' (JStr ''default'') example_world = Inr (Some example_theme)"
    by (simp add: getItem_def store_defs example_defs)
  have rec: "(example_theme ++ own_props rename_patch)
               (''modified'' \<mapsto> JNum (of_int (clock example_env (tick example_world))),
                keyPath \<lparr>keyPath = ''id'', autoIncrement = False\<rparr> \<mapsto> JStr ''default'')
             = [''id'' \<mapsto> JStr ''default'', ''colors'' \<mapsto> JStr ''amber'',
                ''timestamp'' \<mapsto> JNum 900, ''modified'' \<mapsto> JNum 1000]"
    by (auto simp: fun_eq_iff map_add_def example_defs rename_patch_def)
  from updateItem_merges [OF cfg got, of example_env rename_patch] got
  show ?thesis unfolding rec by blast
qed

text \<open>
  C6. When \<open>getItem\<close> finds no record under the key, \<open>updateItem\<close> fails with the
  not-found error and the state, so every collection, is as before: no record is
  created.
\<close>

theorem updateItem_not_found:
  assumes "getItem storeName ident w = Inr None"
  shows "updateItem e storeName ident patch w = (Inl (ItemNotFound ident storeName), w)"
  using assms
  by (auto simp: getItem_def updateItem_def split: option.splits if_splits)

theorem updateItem_not_found_witness:
  "getItem ''themes'' (JStr ''missing'') example_world = Inr None
   \<and> updateItem example_env ''themes'' (JStr ''missing'') rename_patch example_world =
       (Inl (ItemNotFound (JStr ''missing'') ''themes''), example_world)"
proof -
  have none: "getItem ''themes'' (JStr ''missing'') example_world = Inr None"
    by (simp add: getItem_def store_defs example_defs)
  from updateItem_not_found [OF none] none show ?thesis by simp
qed

section \<open>add, then get\<close>

text \<open>
  C7, as the code has it by design, for a record whose \<open>timestamp\<close> is absent or truthy.
  When \<open>addItem\<close> succeeds with key \<open>k\<close>, \<open>getItem\<close> with \<open>k\<close> returns the input
  record, with \<open>timestamp\<close> set to the current time when the input has none (a truthy
  \<open>timestamp\<close> is kept as it is), and with the key field set to \<open>k\<close> when the input has
  no key field: the key is then generated by the store, which writes it into the record.
\<close>

theorem addItem_then_getItem:
  assumes "STORES storeName = Some cfg"
    and "data ''timestamp'' = None \<or> truthy_opt (data ''timestamp'')"
    and "addItem e storeName data w = (Inr k, w')"
  shows "getItem storeName k w' =
           Inr (Some (let data1 = (if data ''timestamp'' = None
                                   then data(''timestamp'' \<mapsto> JNum (of_int (clock e (tick w))))
                                   else data)
                      in if data1 (keyPath cfg) = None then data1(keyPath cfg \<mapsto> k) else data1))"
proof -
  obtain st where st: "get_store storeName (db w) = Some st"
    using STORES_get_store [OF assms(1)] by blast
  have op: "open_store storeName w = Some (cfg, st)"
    by (simp add: open_store_Some assms(1) st)
  define data1 where "data1 = (if data ''timestamp'' = None
                                   then data(''timestamp'' \<mapsto> JNum (of_int (clock e (tick w))))
                                   else data)"
  have stamped: "(if \<not> truthy_opt (data ''timestamp'')
                  then data(''timestamp'' \<mapsto> JNum (of_int (clock e (tick w)))) else data) = data1"
    using assms(2) by (auto simp: data1_def)
  define w1 where "w1 = (if truthy_opt (data ''timestamp'') then w else w\<lparr>tick := tick w + 1\<rparr>)"
  from assms(3) obtain st' where add: "store_add cfg data1 st = Inr (k, st')"
    and w': "w' = w1\<lparr>db := put_store storeName st' (db w1)\<rparr>"
    unfolding stamped [symmetric]
    by (auto simp: addItem_def op Date_now_def Let_def w1_def split: if_splits sum.splits)
  have op': "open_store storeName w' = Some (cfg, st')"
    by (simp add: open_store_Some assms(1) w' get_put_store_same [OF assms(1)])
  have "valid_key k \<and> store_get st' k =
          Some (if data1 (keyPath cfg) = None then data1(keyPath cfg \<mapsto> k) else data1)"
    using add
    by (auto simp: store_add_def store_get_def Let_def map_of_insert_by_key
        split: option.splits if_splits)
  then show ?thesis
    by (simp add: getItem_def op' Let_def data1_def [symmetric])
qed

theorem addItem_then_getItem_witness:
  "fst (addItem example_env ''operations'' keyless_operation example_world) = Inr (JNum 2)
   \<and> getItem ''operations'' (JNum 2)
         (snd (addItem example_env ''operations'' keyless_operation example_world)) =
       Inr (Some (keyless_operation(''timestamp'' \<mapsto> JNum 1000, ''id'' \<mapsto> JNum 2)))
   \<and> fst (addItem example_env ''themes'' dated_theme example_world) = Inr (JStr ''dark'')
   \<and> getItem ''themes'' (JStr ''dark'')
         (snd (addItem example_env ''themes'' dated_theme example_world)) =
       Inr (Some dated_theme)"
proof -
  have cfg: "STORES ''operations'' = Some \<lparr>keyPath = ''id'', autoIncrement = True\<rparr>"
    and cfg': "STORES ''themes'' = Some \<lparr>keyPath = ''id'', autoIncrement = False\<rparr>"
    by (simp_all add: STORES_def)
  have h: "keyless_operation ''timestamp'' = None \<or> truthy_opt (keyless_operation ''timestamp'')"
    and h': "dated_theme ''timestamp'' = None \<or> truthy_opt (dated_theme ''timestamp'')"
    by (simp_all add: keyless_operation_def dated_theme_def)
  have k: "fst (addItem example_env ''operations'' keyless_operation example_world) = Inr (JNum 2)"
    by (simp add: addItem_def store_defs example_defs keyless_operation_def Let_def)
  then have add: "addItem example_env ''operations'' keyless_operation example_world =
      (Inr (JNum 2), snd (addItem example_env ''operations'' keyless_operation example_world))"
    by (metis prod.collapse)
  have k': "fst (addItem example_env ''themes'' dated_theme example_world) = Inr (JStr ''dark'')"
    by (simp add: addItem_def store_defs example_defs dated_theme_def Let_def)
  then have add': "addItem example_env ''themes'' dated_theme example_world =
      (Inr (JStr ''dark''), snd (addItem example_env ''themes'' dated_theme example_world))"
    by (metis prod.collapse)
  from addItem_then_getItem [OF cfg h add] addItem_then_getItem [OF cfg' h' add'] k k'
  show ?thesis by (simp add: example_defs keyless_operation_def dated_theme_def Let_def)
qed

text \<open>
  C7 as stated fails: an operation without \<open>id\<close> does not come back as the input plus
  a \<open>timestamp\<close>. The store generates the key 2 and writes it into the record, so the
  record that \<open>getItem\<close> returns has the field \<open>id\<close>, which the input has not.
\<close>

theorem addItem_then_getItem_counterexample:
  "keyless_operation ''id'' = None
   \<and> fst (addItem example_env ''operations'' keyless_operation example_world) = Inr (JNum 2)
   \<and> getItem ''operations'' (JNum 2)
         (snd (addItem example_env ''operations'' keyless_operation example_world)) =
       Inr (Some (keyless_operation(''timestamp'' \<mapsto> JNum 1000, ''id'' \<mapsto> JNum 2)))
   \<and> (keyless_operation(''timestamp'' \<mapsto> JNum 1000, ''id'' \<mapsto> JNum 2)) ''id'' = Some (JNum 2)
   \<and> (keyless_operation(''timestamp'' \<mapsto> JNum 1000)) ''id'' = None"
  by (simp add: addItem_def getItem_def store_defs example_defs keyless_operation_def Let_def)

section \<open>Validation of a backup document\<close>

text \<open>
  A document other than \<open>null\<close> whose magic marker is missing or is not
  \<open>ODS_BACKUP_v9\<close>: \<open>importData\<close> fails with the invalid-format error and leaves the
  whole state, so all four collections, as it was.
\<close>

lemma importData_wrong_magic:
  assumes "backup \<noteq> JNull"
    and "read_prop (Some backup) ''magic'' \<noteq> Inr (Some (JStr BACKUP_MAGIC))"
  shows "importData e fileName backup w = (Inl (Error ''Invalid backup file format''), w)"
  using assms by (cases backup) (auto simp: importData_def validateBackup_def)

text \<open>
  C3 does not hold of the code for the document \<open>null\<close>, the content of a file whose
  text is \<open>null\<close>. It has no magic marker, but \<open>validateBackup\<close> reads \<open>backup.magic\<close>
  with no guard: the read throws a TypeError, which the \<open>catch\<close> of \<open>importData\<close> reports
  in place of the invalid-format error. The state is left as it was. The other
  documents that are not objects (a boolean, a number, a string, an array) have no
  marker either and fail with the invalid-format error, as the test \<open>!backup.magic\<close>
  intends.
\<close>

theorem importData_null_document:
  "importData e fileName JNull w = (Inl TypeError, w)
   \<and> importData e fileName (JBool b) w = (Inl (Error ''Invalid backup file format''), w)
   \<and> importData e fileName (JNum n) w = (Inl (Error ''Invalid backup file format''), w)
   \<and> importData e fileName (JStr s) w = (Inl (Error ''Invalid backup file format''), w)
   \<and> importData e fileName (JArr xs) w = (Inl (Error ''Invalid backup file format''), w)"
  by (simp add: importData_def validateBackup_def)

theorem importData_null_document_witness:
  "importData example_env ''null.json'' JNull example_world = (Inl TypeError, example_world)
   \<and> fst (importData example_env ''null.json'' JNull example_world)
       \<noteq> Inl (Error ''Invalid backup file format'')"
  using importData_null_document [of example_env "''null.json''" example_world]
  by simp

text \<open>
  C9. A document whose \<open>timestamp\<close> is the number 0 never validates, and its import
  fails with the validation message and leaves the state as it was. When its magic
  marker is right and its version is truthy, the message is \<open>Missing timestamp\<close>: the
  attribute is there, and it is its truthiness that is tested.
\<close>

theorem validateBackup_zero_timestamp:
  assumes "ps ''timestamp'' = Some (JNum 0)"
  shows "(\<exists>msg. validateBackup (JObj ps) = Inr (Invalid msg)
            \<and> importData e fileName (JObj ps) w = (Inl (Error msg), w))
         \<and> (ps ''magic'' = Some (JStr BACKUP_MAGIC) \<and> truthy_opt (ps ''version'')
              \<longrightarrow> validateBackup (JObj ps) = Inr (Invalid ''Missing timestamp'')
                \<and> importData e fileName (JObj ps) w = (Inl (Error ''Missing timestamp''), w))"
  using assms by (auto simp: importData_def validateBackup_def BACKUP_MAGIC_def)

theorem validateBackup_zero_timestamp_witness:
  "validateBackup (document ''9.1'' (JNum 0) (JObj Map.empty)) = Inr (Invalid ''Missing timestamp'')
   \<and> importData example_env ''zero.json'' (document ''9.1'' (JNum 0) (JObj Map.empty)) example_world
       = (Inl (Error ''Missing timestamp''), example_world)"
proof -
  let ?ps = "[''magic'' \<mapsto> JStr BACKUP_MAGIC, ''version'' \<mapsto> JStr ''9.1'',
              ''timestamp'' \<mapsto> JNum 0, ''data'' \<mapsto> JObj Map.empty,
              ''metadata'' \<mapsto> JObj Map.empty]"
  have d: "document ''9.1'' (JNum 0) (JObj Map.empty) = JObj ?ps"
    by (simp add: document_def)
  have h: "?ps ''timestamp'' = Some (JNum 0)" by simp
  have m: "?ps ''magic'' = Some (JStr BACKUP_MAGIC) \<and> truthy_opt (?ps ''version'')" by simp
  from validateBackup_zero_timestamp [of ?ps example_env "''zero.json''" example_world] h m
  show ?thesis unfolding d by blast
qed

section \<open>What each step leaves unchanged\<close>

lemma page_kept_refl [simp]: "page_kept w w"
  by (simp add: page_kept_def)

lemma page_kept_trans: "page_kept w w1 \<Longrightarrow> page_kept w1 w2 \<Longrightarrow> page_kept w w2"
  by (simp add: page_kept_def)

lemma only_store_refl [simp]: "only_store name w w"
  by (simp add: only_store_def)

lemma only_store_trans: "only_store name w w1 \<Longrightarrow> only_store name w1 w2 \<Longrightarrow> only_store name w w2"
  by (simp add: only_store_def)

lemma put_store_fields:
  "themes (put_store n st d) = (if n = ''themes'' then st else themes d)"
  "operations (put_store n st d) = (if n = ''operations'' then st else operations d)"
  "workspaces (put_store n st d) = (if n = ''workspaces'' then st else workspaces d)"
  "backups (put_store n st d) = (if n = ''backups'' then st else backups d)"
  by (auto simp: put_store_def)

lemma addItem_frame:
  "addItem e n d w = (r, w') \<Longrightarrow> page_kept w w' \<and> only_store n w w'"
  by (auto simp: addItem_def Date_now_def Let_def page_kept_def only_store_def put_store_fields
      split: option.splits if_splits sum.splits prod.splits)

lemma updateItem_frame:
  "updateItem e n i d w = (r, w') \<Longrightarrow> page_kept w w' \<and> only_store n w w'"
  by (auto simp: updateItem_def Date_now_def Let_def page_kept_def only_store_def put_store_fields
      split: option.splits if_splits sum.splits prod.splits)

lemma clearStore_frame:
  "clearStore n w = (r, w') \<Longrightarrow> page_kept w w' \<and> only_store n w w'"
  by (auto simp: clearStore_def page_kept_def only_store_def put_store_fields
      split: option.splits)

lemma exportData_frame:
  "exportData e w = (r, w') \<Longrightarrow>
     asked w' = asked w \<and> only_store ''backups'' w w'"
  apply (auto simp: exportData_def Date_now_def Let_def
      split: option.splits if_splits sum.splits prod.splits dest!: addItem_frame)
  apply (auto simp: page_kept_def only_store_def)
  done


lemma add_theme_frame:
  "add_theme e v w = (r, w') \<Longrightarrow> page_kept w w' \<and> only_store ''themes'' w w'"
  by (cases v) (auto simp: add_theme_def Date_now_def dest: addItem_frame
      simp: page_kept_def only_store_def)

lemma import_themes_frame:
  "import_themes e xs n w = (r, w') \<Longrightarrow> page_kept w w' \<and> only_store ''themes'' w w'"
proof (induction xs arbitrary: n w)
  case Nil
  then show ?case by simp
next
  case (Cons x xs)
  obtain r1 w1 where a: "add_theme e x w = (r1, w1)" by (cases "add_theme e x w")
  note f1 = add_theme_frame [OF a]
  show ?case
  proof (cases r1)
    case (Inl err)
    with Cons.prems a f1 show ?thesis by simp
  next
    case (Inr k)
    with Cons.prems a have "import_themes e xs (n + 1) w1 = (r, w')" by simp
    from Cons.IH [OF this] f1 show ?thesis
      by (blast intro: page_kept_trans only_store_trans)
  qed
qed

lemma add_without_id_frame:
  "add_without_id e s v w = (r, w') \<Longrightarrow> page_kept w w' \<and> only_store s w w'"
  by (cases v) (auto simp: add_without_id_def dest: addItem_frame)

lemma import_without_id_frame:
  "import_without_id e s xs n w = (r, w') \<Longrightarrow> page_kept w w' \<and> only_store s w w'"
proof (induction xs arbitrary: n w)
  case Nil
  then show ?case by simp
next
  case (Cons x xs)
  obtain r1 w1 where a: "add_without_id e s x w = (r1, w1)" by (cases "add_without_id e s x w")
  note f1 = add_without_id_frame [OF a]
  show ?case
  proof (cases r1)
    case (Inl err)
    with Cons.prems a f1 show ?thesis by simp
  next
    case (Inr k)
    with Cons.prems a have "import_without_id e s xs (n + 1) w1 = (r, w')" by simp
    from Cons.IH [OF this] f1 show ?thesis
      by (blast intro: page_kept_trans only_store_trans)
  qed
qed

lemma clear_collections_eq:
  "clear_collections w =
     (Inr (), w\<lparr>db := (db w)\<lparr>themes := (themes (db w))\<lparr>items := []\<rparr>,
                           operations := (operations (db w))\<lparr>items := []\<rparr>,
                           workspaces := (workspaces (db w))\<lparr>items := []\<rparr>\<rparr>\<rparr>)"
  by (simp add: clear_collections_def clearStore_def open_store_def STORES_def get_store_def
      put_store_def)

lemma record_import_frame:
  "record_import e f b n w = (r, w') \<Longrightarrow> page_kept w w' \<and> only_store ''backups'' w w'"
  by (auto simp: record_import_def Date_now_def Let_def
      split: sum.splits prod.splits dest!: addItem_frame)
     (auto simp: page_kept_def only_store_def)

lemma apply_theme_data_db:
  "apply_theme_data v w = Inr w' \<Longrightarrow>
     db w' = db w \<and> asked w' = asked w \<and> tick w' = tick w \<and> localStorage w' = localStorage w"
  by (auto simp: apply_theme_data_def Let_def split: sum.splits option.splits if_splits)

lemma loadTheme_fallback_db:
  "db (loadTheme_fallback w) = db w \<and> asked (loadTheme_fallback w) = asked w"
  by (auto simp: loadTheme_fallback_def split: option.splits stored_text.splits sum.splits
      dest: apply_theme_data_db)

lemma saveTheme_frame:
  "saveTheme e w = (ok, w') \<Longrightarrow> asked w' = asked w \<and> only_store ''themes'' w w'"
  apply (auto simp: saveTheme_def Date_now_def Let_def
      split: sum.splits prod.splits option.splits if_splits
      dest!: addItem_frame updateItem_frame)
  apply (auto simp: page_kept_def only_store_def)
  done

lemma saveTheme_frame_snd:
  "asked (snd (saveTheme e w)) = asked w \<and> only_store ''themes'' w (snd (saveTheme e w))"
  using saveTheme_frame [of e w "fst (saveTheme e w)" "snd (saveTheme e w)"] by simp

lemma loadTheme_frame:
  "asked (loadTheme e w) = asked w \<and> only_store ''themes'' w (loadTheme e w)"
  using saveTheme_frame_snd [of e w]
  apply (auto simp: loadTheme_def loadTheme_fallback_db Let_def
      split: sum.splits prod.splits option.splits stored_text.splits
      dest!: apply_theme_data_db saveTheme_frame)
  apply (auto simp: only_store_def loadTheme_fallback_db)
  done

lemma reapply_theme_frame:
  "asked (reapply_theme e w) = asked w \<and> only_store ''themes'' w (reapply_theme e w)"
  using loadTheme_frame [of e w]
  by (auto simp: reapply_theme_def Let_def only_store_def split: prod.splits)

lemma insert_collections_frame:
  "insert_collections e b w = (r, w') \<Longrightarrow>
     asked w' = asked w \<and> backups (db w') = backups (db w)"
  apply (auto simp: insert_collections_def split: sum.splits prod.splits
      dest!: import_themes_frame import_without_id_frame)
  apply (auto simp: page_kept_def only_store_def)
  done

lemma import_confirmed_asked:
  "import_confirmed e f b w = (r, w') \<Longrightarrow> asked w' = asked w"
  apply (auto simp: import_confirmed_def clear_collections_eq Let_def
      split: sum.splits prod.splits
      dest!: exportData_frame insert_collections_frame record_import_frame)
  apply (auto simp: page_kept_def reapply_theme_frame)
  done

lemma confirm_import_asked:
  "confirm_import e b w = (r, w') \<Longrightarrow>
     db w' = db w \<and> (asked w' = asked w \<or> (\<exists>t c1 c2 c3. asked w' = asked w @ [ImportPrompt t c1 c2 c3]))"
  by (auto simp: confirm_import_def ask_def Let_def split: sum.splits if_splits)

lemma import_after_version_check_asked:
  "import_after_version_check e f b w = (r, w') \<Longrightarrow>
     asked w' = asked w \<or> (\<exists>t c1 c2 c3. asked w' = asked w @ [ImportPrompt t c1 c2 c3])"
  by (auto simp: import_after_version_check_def split: sum.splits prod.splits
      dest!: confirm_import_asked import_confirmed_asked)

section \<open>Evaluation of the examples\<close>

lemmas backup_defs =
  importData_def validateBackup_def check_version_def isCompatibleVersion_def first_elem_def
  confirm_import_def ask_def import_after_version_check_def import_confirmed_def
  exportData_def getAllItems_def backup_document_def backup_filename_def count_of_def
  clear_collections_def clearStore_def insert_collections_def records_of_def
  record_import_def reapply_theme_def loadTheme_def loadTheme_fallback_def saveTheme_def
  stored_text_of_def apply_theme_data_def theme_record_def addItem_def getItem_def
  updateItem_def add_theme_def add_without_id_def BACKUP_MAGIC_def BACKUP_VERSION_def
  CANCELLED_def

section \<open>Version check\<close>

lemma first_elem_split_on:
  "first_elem (split_on c s) = Some (takeWhile (\<lambda>x. x \<noteq> c) s)"
  by (induction s) (auto simp: first_elem_def split: list.splits)

lemma isCompatibleVersion_major:
  "isCompatibleVersion (Some (JStr v)) = Inr (takeWhile (\<lambda>c. c \<noteq> CHR ''.'') v = ''9'')"
  unfolding isCompatibleVersion_def first_elem_split_on
  by (auto simp: BACKUP_VERSION_def)

text \<open>
  C4. For a valid document whose version is the string \<open>v\<close>, the check compares the
  text of \<open>v\<close> before its first dot with \<open>9\<close>, the major version of \<open>9.1\<close>. When they
  agree, the import goes on with no version dialog, whatever follows the dot. When they
  differ, the version dialog is shown: declined, the import fails as cancelled with the
  database untouched; accepted, the import goes on as for a compatible version.
\<close>

theorem version_gate:
  assumes "validateBackup backup = Inr Valid"
    and "read_prop (Some backup) ''version'' = Inr (Some (JStr v))"
  shows "isCompatibleVersion (Some (JStr v)) = Inr (takeWhile (\<lambda>c. c \<noteq> CHR ''.'') v = ''9'')
    \<and> (takeWhile (\<lambda>c. c \<noteq> CHR ''.'') v = ''9'' \<longrightarrow>
           importData e fileName backup w = import_after_version_check e fileName backup w
           \<and> (\<forall>x. VersionPrompt x \<in> set (asked (snd (importData e fileName backup w)))
                 \<longrightarrow> VersionPrompt x \<in> set (asked w)))
    \<and> (takeWhile (\<lambda>c. c \<noteq> CHR ''.'') v \<noteq> ''9'' \<and> \<not> confirm e (VersionPrompt (Some (JStr v))) \<longrightarrow>
           importData e fileName backup w =
             (Inl CANCELLED, w\<lparr>asked := asked w @ [VersionPrompt (Some (JStr v))]\<rparr>))
    \<and> (takeWhile (\<lambda>c. c \<noteq> CHR ''.'') v \<noteq> ''9'' \<and> confirm e (VersionPrompt (Some (JStr v))) \<longrightarrow>
           importData e fileName backup w =
             import_after_version_check e fileName backup
               (w\<lparr>asked := asked w @ [VersionPrompt (Some (JStr v))]\<rparr>))"
proof -
  have same: "takeWhile (\<lambda>c. c \<noteq> CHR ''.'') v = ''9'' \<Longrightarrow>
      importData e fileName backup w = import_after_version_check e fileName backup w"
    using assms
    by (simp add: importData_def check_version_def isCompatibleVersion_major)
  have quiet: "VersionPrompt x \<in> set (asked (snd (import_after_version_check e fileName backup w)))
      \<Longrightarrow> VersionPrompt x \<in> set (asked w)" for x
    using import_after_version_check_asked [of e fileName backup w
        "fst (import_after_version_check e fileName backup w)"
        "snd (import_after_version_check e fileName backup w)"]
    by auto
  show ?thesis
    using assms same quiet
    by (auto simp: importData_def check_version_def isCompatibleVersion_major ask_def Let_def)
qed

theorem version_gate_witness:
  "importData declining_env ''old.json'' (document ''8.5'' (JNum 5) (JObj Map.empty)) example_world =
     (Inl CANCELLED, example_world\<lparr>asked := [VersionPrompt (Some (JStr ''8.5''))]\<rparr>)
   \<and> importData example_env ''new.json'' (document ''9.0'' (JNum 5) (JObj Map.empty)) example_world =
       import_after_version_check example_env ''new.json''
         (document ''9.0'' (JNum 5) (JObj Map.empty)) example_world"
proof -
  have v8: "validateBackup (document ''8.5'' (JNum 5) (JObj Map.empty)) = Inr Valid"
    and r8: "read_prop (Some (document ''8.5'' (JNum 5) (JObj Map.empty))) ''version'' =
             Inr (Some (JStr ''8.5''))"
    and v9: "validateBackup (document ''9.0'' (JNum 5) (JObj Map.empty)) = Inr Valid"
    and r9: "read_prop (Some (document ''9.0'' (JNum 5) (JObj Map.empty))) ''version'' =
             Inr (Some (JStr ''9.0''))"
    by (simp_all add: validateBackup_def document_def BACKUP_MAGIC_def)
  have no: "\<not> confirm declining_env (VersionPrompt (Some (JStr ''8.5'')))"
    by (simp add: declining_env_def example_env_def)
  have a0: "asked example_world = []" by (simp add: example_world_def)
  from version_gate [OF v8 r8, of declining_env "''old.json''" example_world]
       version_gate [OF v9 r9, of example_env "''new.json''" example_world] no a0
  show ?thesis by simp
qed

section \<open>Where an import error can come from\<close>

lemma store_add_not_Error: "store_add cfg v st \<noteq> Inl (Error msg)"
  by (auto simp: store_add_def Let_def split: option.splits)

lemma addItem_not_Error: "fst (addItem e n d w) \<noteq> Inl (Error msg)"
  using store_add_not_Error
  by (auto simp: addItem_def Date_now_def Let_def split: option.splits sum.splits prod.splits)

lemma add_theme_not_Error: "fst (add_theme e v w) \<noteq> Inl (Error msg)"
  by (cases v) (auto simp: add_theme_def addItem_not_Error)

lemma import_themes_not_Error: "fst (import_themes e xs n w) \<noteq> Inl (Error msg)"
proof (induction xs arbitrary: n w)
  case Nil
  then show ?case by simp
next
  case (Cons x xs)
  show ?case
    using add_theme_not_Error [of e x w msg] Cons.IH
    by (auto split: prod.splits sum.splits)
qed

lemma add_without_id_not_Error: "fst (add_without_id e s v w) \<noteq> Inl (Error msg)"
  by (cases v) (auto simp: add_without_id_def addItem_not_Error)

lemma import_without_id_not_Error: "fst (import_without_id e s xs n w) \<noteq> Inl (Error msg)"
proof (induction xs arbitrary: n w)
  case Nil
  then show ?case by simp
next
  case (Cons x xs)
  show ?case
    using add_without_id_not_Error [of e s x w msg] Cons.IH
    by (auto split: prod.splits sum.splits)
qed

lemma read_prop_not_Error: "read_prop v name \<noteq> Inl (Error msg)"
  by (cases "(v, name)" rule: read_prop.cases) auto

lemma records_of_not_Error: "records_of e v \<noteq> Inl (Error msg)"
proof (cases v)
  case None
  then show ?thesis by (simp add: records_of_def)
next
  case (Some x)
  then show ?thesis by (cases x) (auto simp: records_of_def)
qed

lemma insert_collections_not_Error: "fst (insert_collections e b w) \<noteq> Inl (Error msg)"
  using read_prop_not_Error records_of_not_Error import_themes_not_Error
    import_without_id_not_Error
  apply (auto simp: insert_collections_def split: sum.splits prod.splits)
  apply (metis fst_conv)+
  done


lemma record_import_not_Error: "fst (record_import e f b n w) \<noteq> Inl (Error msg)"
  using read_prop_not_Error addItem_not_Error
  by (auto simp: record_import_def Date_now_def Let_def split: sum.splits prod.splits)

lemma import_confirmed_not_Error: "fst (import_confirmed e f b w) \<noteq> Inl (Error msg)"
proof -
  obtain r1 w1 where x: "exportData e w = (r1, w1)" by (cases "exportData e w")
  obtain w2 where c: "clear_collections w1 = (Inr (), w2)"
    by (simp add: clear_collections_eq)
  obtain r3 w3 where i: "insert_collections e b w2 = (r3, w3)"
    by (cases "insert_collections e b w2")
  show ?thesis
  proof (cases r3)
    case (Inl err)
    with insert_collections_not_Error [of e b w2 msg] i show ?thesis
      by (simp add: import_confirmed_def x c)
  next
    case (Inr n)
    obtain r4 w4 where r: "record_import e f b n w3 = (r4, w4)"
      by (cases "record_import e f b n w3")
    with record_import_not_Error [of e f b n w3 msg] i Inr show ?thesis
      by (cases r4) (simp_all add: import_confirmed_def x c)
  qed
qed

lemma import_after_version_check_Error:
  "fst (import_after_version_check e f b w) = Inl (Error msg) \<Longrightarrow> Error msg = CANCELLED"
  using import_confirmed_not_Error [of e f b _ msg] read_prop_not_Error
  by (auto simp: import_after_version_check_def confirm_import_def ask_def Let_def
      split: sum.splits prod.splits if_splits)

lemma check_version_Error:
  "fst (check_version e b w) = Inl (Error msg) \<Longrightarrow> Error msg = CANCELLED"
  using read_prop_not_Error
  by (auto simp: check_version_def isCompatibleVersion_def ask_def Let_def
      split: sum.splits prod.splits if_splits option.splits jv.splits bool.splits)

lemma insert_collections_no_sections:
  assumes "read_prop (Some b) ''data'' = Inr (Some (JArr xs))"
  shows "insert_collections e b w =
           (Inr \<lparr>imported_themes = 0, imported_operations = 0, imported_workspaces = 0\<rparr>, w)"
  using assms by (simp add: insert_collections_def records_of_def)

text \<open>
  C10. A document with the right magic marker, a truthy version and timestamp, and an
  array as \<open>data\<close> passes validation, so its import never fails with the
  invalid-data-structure error; no section is found on the array, and a successful
  import of it inserts nothing.
\<close>

theorem validateBackup_array_data:
  assumes "ps ''magic'' = Some (JStr BACKUP_MAGIC)"
    and "truthy_opt (ps ''version'')"
    and "truthy_opt (ps ''timestamp'')"
    and "ps ''data'' = Some (JArr xs)"
  shows "validateBackup (JObj ps) = Inr Valid
    \<and> fst (importData e fileName (JObj ps) w) \<noteq> Inl (Error ''Invalid data structure'')
    \<and> (\<forall>n w'. importData e fileName (JObj ps) w = (Inr n, w') \<longrightarrow>
          n = \<lparr>imported_themes = 0, imported_operations = 0, imported_workspaces = 0\<rparr>)"
proof -
  have v: "validateBackup (JObj ps) = Inr Valid"
    using assms by (simp add: validateBackup_def BACKUP_MAGIC_def)
  have ne: "Error ''Invalid data structure'' \<noteq> CANCELLED" by (simp add: CANCELLED_def)
  have e1: "fst (importData e fileName (JObj ps) w) \<noteq> Inl (Error ''Invalid data structure'')"
    using check_version_Error [of e "JObj ps" w "''Invalid data structure''"]
      import_after_version_check_Error [of e fileName "JObj ps" _ "''Invalid data structure''"] ne
    by (auto simp: importData_def v split: sum.splits prod.splits)
  have ins: "insert_collections e (JObj ps) w2 =
      (Inr \<lparr>imported_themes = 0, imported_operations = 0, imported_workspaces = 0\<rparr>, w2)" for w2
    using assms(4) by (simp add: insert_collections_no_sections)
  have e2: "\<forall>n w'. importData e fileName (JObj ps) w = (Inr n, w') \<longrightarrow>
          n = \<lparr>imported_themes = 0, imported_operations = 0, imported_workspaces = 0\<rparr>"
    by (auto simp: importData_def v import_after_version_check_def import_confirmed_def
        clear_collections_eq ins Let_def split: sum.splits prod.splits)
  from v e1 e2 show ?thesis by blast
qed

theorem validateBackup_array_data_witness:
  "validateBackup (document ''9.1'' (JNum 5) (JArr [])) = Inr Valid
   \<and> fst (importData example_env ''list.json'' (document ''9.1'' (JNum 5) (JArr [])) example_world)
       \<noteq> Inl (Error ''Invalid data structure'')"
proof -
  let ?ps = "[''magic'' \<mapsto> JStr BACKUP_MAGIC, ''version'' \<mapsto> JStr ''9.1'',
              ''timestamp'' \<mapsto> JNum 5, ''data'' \<mapsto> JArr [],
              ''metadata'' \<mapsto> JObj Map.empty]"
  have d: "document ''9.1'' (JNum 5) (JArr []) = JObj ?ps"
    by (simp add: document_def)
  have h: "?ps ''magic'' = Some (JStr BACKUP_MAGIC)" "truthy_opt (?ps ''version'')"
    "truthy_opt (?ps ''timestamp'')" "?ps ''data'' = Some (JArr [])"
    by simp_all
  from validateBackup_array_data [of ?ps "[]" example_env "''list.json''" example_world] h
  show ?thesis unfolding d by blast
qed

section \<open>The safety snapshot\<close>

text \<open>
  C1 does not hold of the code. \<open>exportData\<close> catches its own failure and returns
  \<open>{success: false}\<close>; \<open>importData\<close> never looks at the result. In the state
  \<open>clash_world\<close> the snapshot fails with a ConstraintError (the key of its summary
  record is taken), and the import still succeeds and has emptied \<open>operations\<close>.
\<close>

theorem snapshot_failure_ignored:
  "fst (exportData example_env clash_world) = Inl ConstraintError
   \<and> fst (importData example_env ''b.json'' empty_backup clash_world) =
       Inr \<lparr>imported_themes = 0, imported_operations = 0, imported_workspaces = 0\<rparr>
   \<and> items (operations (db clash_world)) = [(JNum 1, example_operation)]
   \<and> items (operations (db (snd (importData example_env ''b.json'' empty_backup clash_world)))) = []"
  by (simp add: backup_defs store_defs example_defs document_def empty_backup_def
      clash_world_def Let_def)

theorem snapshot_failure_ignored_witness:
  "items (operations (db (snd (importData example_env ''b.json'' empty_backup clash_world))))
     \<noteq> items (operations (db clash_world))"
  using snapshot_failure_ignored by simp

section \<open>A missing section of the data\<close>

lemma check_version_db:
  "check_version e b w = (r, w') \<Longrightarrow> db w' = db w"
  by (auto simp: check_version_def ask_def Let_def split: sum.splits bool.splits if_splits)

lemma importData_success:
  assumes "importData e f b w = (Inr n, w')"
  shows "\<exists>w2 w3 w4 k.
           themes (db w2) = (themes (db w))\<lparr>items := []\<rparr>
         \<and> operations (db w2) = (operations (db w))\<lparr>items := []\<rparr>
         \<and> workspaces (db w2) = (workspaces (db w))\<lparr>items := []\<rparr>
         \<and> insert_collections e b w2 = (Inr n, w3)
         \<and> record_import e f b n w3 = (Inr k, w4)
         \<and> w' = reapply_theme e w4"
proof -
  from assms obtain wa where cv: "check_version e b w = (Inr (), wa)"
    and rest: "import_after_version_check e f b wa = (Inr n, w')"
    by (auto simp: importData_def split: sum.splits validation.splits prod.splits)
  from rest obtain wb where ci: "confirm_import e b wa = (Inr (), wb)"
    and conf: "import_confirmed e f b wb = (Inr n, w')"
    by (auto simp: import_after_version_check_def split: sum.splits prod.splits)
  have dbb: "db wb = db w"
    using check_version_db [OF cv] confirm_import_asked [OF ci] by simp
  obtain r1 w1 where ex: "exportData e wb = (r1, w1)" by (cases "exportData e wb")
  have fr: "only_store ''backups'' wb w1" using exportData_frame [OF ex] by simp
  define w2 where "w2 = w1\<lparr>db := (db w1)\<lparr>themes := (themes (db w1))\<lparr>items := []\<rparr>,
                           operations := (operations (db w1))\<lparr>items := []\<rparr>,
                           workspaces := (workspaces (db w1))\<lparr>items := []\<rparr>\<rparr>\<rparr>"
  have cl: "clear_collections w1 = (Inr (), w2)"
    by (simp add: clear_collections_eq w2_def)
  from conf obtain w3 k w4 where ins: "insert_collections e b w2 = (Inr n, w3)"
    and ri: "record_import e f b n w3 = (Inr k, w4)" and w': "w' = reapply_theme e w4"
    by (auto simp: import_confirmed_def ex cl split: sum.splits prod.splits)
  have "themes (db w2) = (themes (db w))\<lparr>items := []\<rparr>"
    "operations (db w2) = (operations (db w))\<lparr>items := []\<rparr>"
    "workspaces (db w2) = (workspaces (db w))\<lparr>items := []\<rparr>"
    using fr dbb by (simp_all add: w2_def only_store_def)
  with ins ri w' show ?thesis by blast
qed

lemma insert_collections_steps:
  assumes "insert_collections e b w = (Inr n, w')"
  shows "\<exists>dat s1 ths w1 s2 ops w2 s3 wss.
           read_prop (Some b) ''data'' = Inr dat
         \<and> read_prop dat ''themes'' = Inr s1 \<and> records_of e s1 = Inr ths
         \<and> import_themes e ths 0 w = (Inr (imported_themes n), w1)
         \<and> read_prop dat ''operations'' = Inr s2 \<and> records_of e s2 = Inr ops
         \<and> import_without_id e ''operations'' ops 0 w1 = (Inr (imported_operations n), w2)
         \<and> read_prop dat ''workspaces'' = Inr s3 \<and> records_of e s3 = Inr wss
         \<and> import_without_id e ''workspaces'' wss 0 w2 = (Inr (imported_workspaces n), w')"
  using assms
  by (auto simp: insert_collections_def split: sum.splits prod.splits)

lemma insert_collections_absent:
  assumes "read_prop (Some b) ''data'' = Inr dat"
    and "read_prop dat sec = Inr None"
    and "insert_collections e b w = (Inr n, w')"
  shows "(sec = ''themes'' \<longrightarrow> imported_themes n = 0 \<and> themes (db w') = themes (db w))
       \<and> (sec = ''operations'' \<longrightarrow> imported_operations n = 0 \<and> operations (db w') = operations (db w))
       \<and> (sec = ''workspaces'' \<longrightarrow> imported_workspaces n = 0 \<and> workspaces (db w') = workspaces (db w))"
proof -
  from insert_collections_steps [OF assms(3)] assms(1)
  obtain s1 ths w1 s2 ops w2 s3 wss where
    r1: "read_prop dat ''themes'' = Inr s1" "records_of e s1 = Inr ths"
    and l1: "import_themes e ths 0 w = (Inr (imported_themes n), w1)"
    and r2: "read_prop dat ''operations'' = Inr s2" "records_of e s2 = Inr ops"
    and l2: "import_without_id e ''operations'' ops 0 w1 = (Inr (imported_operations n), w2)"
    and r3: "read_prop dat ''workspaces'' = Inr s3" "records_of e s3 = Inr wss"
    and l3: "import_without_id e ''workspaces'' wss 0 w2 = (Inr (imported_workspaces n), w')"
    by auto
  note f1 = import_themes_frame [OF l1]
  note f2 = import_without_id_frame [OF l2]
  note f3 = import_without_id_frame [OF l3]
  have a: "sec = ''themes'' \<longrightarrow> imported_themes n = 0 \<and> themes (db w') = themes (db w)"
  proof
    assume s: "sec = ''themes''"
    with assms(2) r1 have "ths = []" by (simp add: records_of_def)
    with l1 have "imported_themes n = 0" "w1 = w" by simp_all
    with f2 f3 show "imported_themes n = 0 \<and> themes (db w') = themes (db w)"
      by (simp add: only_store_def)
  qed
  have b: "sec = ''operations'' \<longrightarrow> imported_operations n = 0 \<and> operations (db w') = operations (db w)"
  proof
    assume s: "sec = ''operations''"
    with assms(2) r2 have "ops = []" by (simp add: records_of_def)
    with l2 have "imported_operations n = 0" "w2 = w1" by simp_all
    with f1 f3 show "imported_operations n = 0 \<and> operations (db w') = operations (db w)"
      by (simp add: only_store_def)
  qed
  have c: "sec = ''workspaces'' \<longrightarrow> imported_workspaces n = 0 \<and> workspaces (db w') = workspaces (db w)"
  proof
    assume s: "sec = ''workspaces''"
    with assms(2) r3 have "wss = []" by (simp add: records_of_def)
    with l3 have "imported_workspaces n = 0" "w' = w2" by simp_all
    with f1 f2 show "imported_workspaces n = 0 \<and> workspaces (db w') = workspaces (db w)"
      by (simp add: only_store_def)
  qed
  from a b c show ?thesis by blast
qed


lemma saveTheme_empty_themes:
  assumes "items (themes (db w)) = []"
  shows "\<exists>r. items (themes (db (snd (saveTheme e w)))) = [(JStr ''default'', r)]"
  using assms
  by (auto simp: saveTheme_def getItem_def addItem_def theme_record_def store_defs Let_def
      split: prod.splits)

lemma loadTheme_empty_themes:
  assumes "items (themes (db w)) = []"
  shows "items (themes (db (loadTheme e w))) = []
       \<or> (\<exists>r. items (themes (db (loadTheme e w))) = [(JStr ''default'', r)])"
proof -
  have g: "getItem ''themes'' (JStr ''default'') w = Inr None"
    using assms by (simp add: getItem_def store_defs)
  show ?thesis
  proof (cases "stored_text_of w ''ods_theme''")
    case None
    with g saveTheme_empty_themes [OF assms, of e] show ?thesis
      by (simp add: loadTheme_def)
  next
    case (Some stored)
    show ?thesis
    proof (cases stored)
      case EmptyText
      with Some g saveTheme_empty_themes [OF assms, of e] show ?thesis
        by (simp add: loadTheme_def)
    next
      case NotJson
      with Some g assms show ?thesis
        by (simp add: loadTheme_def loadTheme_fallback_db)
    next
      case (JsonText v)
      show ?thesis
      proof (cases "apply_theme_data v w")
        case (Inl err)
        with JsonText Some g assms show ?thesis
          by (simp add: loadTheme_def loadTheme_fallback_db)
      next
        case (Inr w1)
        from apply_theme_data_db [OF Inr] assms have "items (themes (db w1)) = []" by simp
        from saveTheme_empty_themes [OF this, of e] Inr JsonText Some g show ?thesis
          by (auto simp: loadTheme_def Let_def split: prod.splits)
      qed
    qed
  qed
qed

lemma reapply_theme_themes:
  "themes (db (reapply_theme e w)) = themes (db (loadTheme e w))"
  by (simp add: reapply_theme_def Let_def split: prod.splits)

lemma same_without_section:
  assumes "ps ''data'' = Some (JObj d)" and "d sec = None"
  shows "importData e f (JObj (ps(''data'' \<mapsto> JObj (d(sec \<mapsto> JArr []))))) w =
         importData e f (JObj ps) w"
proof -
  let ?b = "JObj ps" and ?b' = "JObj (ps(''data'' \<mapsto> JObj (d(sec \<mapsto> JArr []))))"
  have v: "validateBackup ?b' = validateBackup ?b"
    using assms by (simp add: validateBackup_def BACKUP_MAGIC_def)
  have c: "check_version e ?b' = check_version e ?b"
    by (simp add: check_version_def fun_eq_iff)
  have p: "confirm_import e ?b' = confirm_import e ?b"
    by (simp add: confirm_import_def fun_eq_iff)
  have h: "records_of e ((d(sec \<mapsto> JArr [])) name) = records_of e (d name)" for name
    using assms(2) by (simp add: records_of_def count_of_def)
  have i: "insert_collections e ?b' = insert_collections e ?b"
    using assms(1)
    by (simp add: insert_collections_def fun_eq_iff h fun_upd_same del: fun_upd_apply
        cong: sum.case_cong prod.case_cong)
  have r: "record_import e f ?b' = record_import e f ?b"
    by (simp add: record_import_def fun_eq_iff)
  show ?thesis
    unfolding importData_def import_after_version_check_def import_confirmed_def v c p i r
    by (rule refl)
qed

text \<open>
  C8, as the code has it. When the \<open>data\<close> object of a document has no entry \<open>sec\<close>,
  the import has the same outcome as for the document with \<open>sec: []\<close>: the missing
  entry is zero records and no error of its own. When the import succeeds, its count
  for that collection is 0; \<open>operations\<close> and \<open>workspaces\<close> are then empty. \<open>themes\<close> has
  received nothing from the document, and holds nothing or only the record \<open>default\<close>
  that \<open>loadTheme\<close> creates at the end of the import when it finds none.
\<close>

theorem import_absent_section:
  assumes "ps ''data'' = Some (JObj d)" and "d sec = None"
  shows "importData e f (JObj ps) w =
           importData e f (JObj (ps(''data'' \<mapsto> JObj (d(sec \<mapsto> JArr []))))) w
       \<and> (\<forall>n w'. importData e f (JObj ps) w = (Inr n, w') \<longrightarrow>
            (sec = ''operations'' \<longrightarrow>
               imported_operations n = 0 \<and> items (operations (db w')) = [])
          \<and> (sec = ''workspaces'' \<longrightarrow>
               imported_workspaces n = 0 \<and> items (workspaces (db w')) = [])
          \<and> (sec = ''themes'' \<longrightarrow>
               imported_themes n = 0
               \<and> (items (themes (db w')) = []
                    \<or> (\<exists>r. items (themes (db w')) = [(JStr ''default'', r)]))))"
proof -
  have rel: "importData e f (JObj ps) w =
           importData e f (JObj (ps(''data'' \<mapsto> JObj (d(sec \<mapsto> JArr []))))) w"
    using same_without_section [of ps d sec e f w] assms by simp
  have rd: "read_prop (Some (JObj ps)) ''data'' = Inr (Some (JObj d))"
    and rs: "read_prop (Some (JObj d)) sec = Inr None"
    using assms by simp_all
  have eff: "(sec = ''operations'' \<longrightarrow>
               imported_operations n = 0 \<and> items (operations (db w')) = [])
          \<and> (sec = ''workspaces'' \<longrightarrow>
               imported_workspaces n = 0 \<and> items (workspaces (db w')) = [])
          \<and> (sec = ''themes'' \<longrightarrow>
               imported_themes n = 0
               \<and> (items (themes (db w')) = []
                    \<or> (\<exists>r. items (themes (db w')) = [(JStr ''default'', r)])))"
    if ok: "importData e f (JObj ps) w = (Inr n, w')" for n w'
  proof -
    from importData_success [OF ok] obtain w2 w3 w4 k where
      t2: "themes (db w2) = (themes (db w))\<lparr>items := []\<rparr>"
      and o2: "operations (db w2) = (operations (db w))\<lparr>items := []\<rparr>"
      and s2: "workspaces (db w2) = (workspaces (db w))\<lparr>items := []\<rparr>"
      and ins: "insert_collections e (JObj ps) w2 = (Inr n, w3)"
      and ri: "record_import e f (JObj ps) n w3 = (Inr k, w4)"
      and w': "w' = reapply_theme e w4"
      by blast
    note ab = insert_collections_absent [OF rd rs ins]
    have f4: "only_store ''backups'' w3 w4" using record_import_frame [OF ri] by simp
    have f5: "only_store ''themes'' w4 w'" using reapply_theme_frame [of e w4] w' by simp
    have a: "sec = ''operations'' \<longrightarrow>
               imported_operations n = 0 \<and> items (operations (db w')) = []"
      using ab o2 f4 f5 by (simp add: only_store_def)
    have b: "sec = ''workspaces'' \<longrightarrow>
               imported_workspaces n = 0 \<and> items (workspaces (db w')) = []"
      using ab s2 f4 f5 by (simp add: only_store_def)
    have c: "sec = ''themes'' \<longrightarrow>
               imported_themes n = 0
               \<and> (items (themes (db w')) = []
                    \<or> (\<exists>r. items (themes (db w')) = [(JStr ''default'', r)]))"
    proof
      assume s: "sec = ''themes''"
      with ab t2 f4 have n0: "imported_themes n = 0" and e4: "items (themes (db w4)) = []"
        by (simp_all add: only_store_def)
      from loadTheme_empty_themes [OF e4, of e] n0 w'
      show "imported_themes n = 0
               \<and> (items (themes (db w')) = []
                    \<or> (\<exists>r. items (themes (db w')) = [(JStr ''default'', r)]))"
        by (simp add: reapply_theme_themes)
    qed
    from a b c show ?thesis by blast
  qed
  from rel eff show ?thesis by blast
qed


theorem import_absent_section_witness:
  "fst (importData example_env ''b.json'' empty_backup example_world) =
     Inr \<lparr>imported_themes = 0, imported_operations = 0, imported_workspaces = 0\<rparr>
   \<and> items (operations (db (snd (importData example_env ''b.json'' empty_backup example_world)))) = []"
proof -
  let ?ps = "[''magic'' \<mapsto> JStr BACKUP_MAGIC, ''version'' \<mapsto> JStr ''9.1'',
              ''timestamp'' \<mapsto> JNum 5, ''data'' \<mapsto> JObj Map.empty,
              ''metadata'' \<mapsto> JObj Map.empty]"
  have d: "empty_backup = JObj ?ps"
    by (simp add: empty_backup_def document_def)
  have ok: "fst (importData example_env ''b.json'' empty_backup example_world) =
     Inr \<lparr>imported_themes = 0, imported_operations = 0, imported_workspaces = 0\<rparr>"
    by (simp add: backup_defs store_defs example_defs document_def empty_backup_def Let_def)
  then have run: "importData example_env ''b.json'' (JObj ?ps) example_world =
      (Inr \<lparr>imported_themes = 0, imported_operations = 0, imported_workspaces = 0\<rparr>,
       snd (importData example_env ''b.json'' (JObj ?ps) example_world))"
    unfolding d by (metis prod.collapse)
  have h1: "?ps ''data'' = Some (JObj Map.empty)" by simp
  have h2: "(Map.empty :: obj) ''operations'' = None" by simp
  from import_absent_section [of ?ps Map.empty "''operations''" example_env "''b.json''"
      example_world] h1 h2 run
  have "items (operations (db (snd (importData example_env ''b.json'' (JObj ?ps) example_world)))) = []"
    by blast
  with ok show ?thesis unfolding d by simp
qed

text \<open>
  C8 as stated fails for \<open>themes\<close>: the data of \<open>empty_backup\<close> has no \<open>themes\<close> entry,
  its import succeeds with 0 themes, and \<open>themes\<close> is not empty afterwards.
\<close>

theorem import_absent_themes_counterexample:
  "read_prop (Some empty_backup) ''data'' = Inr (Some (JObj Map.empty))
   \<and> fst (importData example_env ''b.json'' empty_backup example_world) =
       Inr \<lparr>imported_themes = 0, imported_operations = 0, imported_workspaces = 0\<rparr>
   \<and> map fst (items (themes (db (snd (importData example_env ''b.json'' empty_backup
         example_world))))) = [JStr ''default'']"
  by (simp add: backup_defs store_defs example_defs document_def empty_backup_def Let_def)

section \<open>Key consistency is kept by add and update\<close>

lemma set_insert_by_key: "set (insert_by_key k v ps) = insert (k, v) (set ps)"
  by (induction ps) auto

lemma distinct_insert_by_key:
  "map_of ps k = None \<Longrightarrow> distinct (map fst ps) \<Longrightarrow> distinct (map fst (insert_by_key k v ps))"
  by (induction ps) (auto simp: set_insert_by_key split: if_splits)

lemma set_replace_by_key:
  "set (replace_by_key k v ps) \<subseteq> insert (k, v) (set ps)"
  by (induction ps) auto

lemma keys_replace_by_key:
  "map fst (replace_by_key k v ps) = map fst ps"
  by (induction ps) auto

lemma consistent_insert:
  assumes "consistent_keys kp st" and "map_of (items st) k = None"
    and "valid_key k" and "v kp = Some k"
  shows "consistent_keys kp (st\<lparr>items := insert_by_key k v (items st), keygen := g\<rparr>)"
  using assms
  by (auto simp: consistent_keys_def set_insert_by_key distinct_insert_by_key)

lemma consistent_replace:
  assumes "consistent_keys kp st" and "valid_key k" and "v kp = Some k"
  shows "consistent_keys kp (st\<lparr>items := replace_by_key k v (items st), keygen := g\<rparr>)"
proof -
  have "\<forall>p \<in> set (replace_by_key k v (items st)). p = (k, v) \<or> p \<in> set (items st)"
    using set_replace_by_key [of k v "items st"] by auto
  then have "\<forall>p \<in> set (replace_by_key k v (items st)).
               valid_key (fst p) \<and> (snd p) kp = Some (fst p)"
    using assms by (fastforce simp: consistent_keys_def)
  then show ?thesis
    using assms(1) by (simp add: consistent_keys_def keys_replace_by_key)
qed

lemma store_add_consistent:
  assumes "consistent_keys (keyPath cfg) st" and "store_add cfg v st = Inr (k, st')"
  shows "consistent_keys (keyPath cfg) st'"
proof (cases "v (keyPath cfg)")
  case None
  with assms(2) have st': "st' = st\<lparr>items := insert_by_key k (v(keyPath cfg \<mapsto> k)) (items st),
                                   keygen := keygen st + 1\<rparr>"
    and k: "k = JNum (of_int (keygen st))" and free: "map_of (items st) k = None"
    by (auto simp: store_add_def store_get_def Let_def split: if_splits)
  show ?thesis
    unfolding st' using assms(1) free by (rule consistent_insert) (simp_all add: k)
next
  case (Some k')
  with assms(2) have st': "st' = st\<lparr>items := insert_by_key k v (items st),
                                   keygen := bump_keygen cfg k (keygen st)\<rparr>"
    and k: "k' = k" "valid_key k" and free: "map_of (items st) k = None"
    by (auto simp: store_add_def store_get_def split: if_splits)
  show ?thesis
    unfolding st' using assms(1) free k(2) by (rule consistent_insert) (simp add: Some k)
qed

lemma addItem_consistent:
  assumes "STORES storeName = Some cfg"
    and "get_store storeName (db w) = Some st"
    and "consistent_keys (keyPath cfg) st"
    and "addItem e storeName data w = (Inr k, w')"
  shows "\<exists>st'. get_store storeName (db w') = Some st' \<and> consistent_keys (keyPath cfg) st'"
proof -
  have op: "open_store storeName w = Some (cfg, st)"
    by (simp add: open_store_Some assms(1,2))
  from assms(4) obtain data1 st' where add: "store_add cfg data1 st = Inr (k, st')"
    and w': "db w' = put_store storeName st' (db w)"
    by (auto simp: addItem_def op Date_now_def Let_def split: if_splits sum.splits)
  from store_add_consistent [OF assms(3) add] w' show ?thesis
    by (auto simp: get_put_store_same [OF assms(1)])
qed


lemma store_put_consistent:
  assumes "consistent_keys (keyPath cfg) st" and "store_put cfg v st = Inr (k, st')"
  shows "consistent_keys (keyPath cfg) st'"
proof -
  define v' where "v' = (case v (keyPath cfg) of None \<Rightarrow> v(keyPath cfg \<mapsto> k) | Some x \<Rightarrow> v)"
  from assms(2) have vk: "valid_key k" and at: "v' (keyPath cfg) = Some k"
    by (auto simp: store_put_def Let_def v'_def split: option.splits if_splits)
  from assms(2) obtain g where
    "(map_of (items st) k \<noteq> None \<and> st' = st\<lparr>items := replace_by_key k v' (items st), keygen := g\<rparr>)
     \<or> (map_of (items st) k = None \<and> st' = st\<lparr>items := insert_by_key k v' (items st), keygen := g\<rparr>)"
    by (auto simp: store_put_def store_get_def Let_def v'_def split: option.splits if_splits)
  then show ?thesis
    using consistent_replace [of "keyPath cfg" st k v' g] assms(1) vk at
      consistent_insert [of "keyPath cfg" st k v' g]
    by auto
qed

lemma updateItem_consistent:
  assumes "STORES storeName = Some cfg"
    and "get_store storeName (db w) = Some st"
    and "consistent_keys (keyPath cfg) st"
    and "updateItem e storeName ident patch w = (Inr u, w')"
  shows "\<exists>st'. get_store storeName (db w') = Some st' \<and> consistent_keys (keyPath cfg) st'"
proof -
  have op: "open_store storeName w = Some (cfg, st)"
    by (simp add: open_store_Some assms(1,2))
  from assms(4) obtain v k st' where put: "store_put cfg v st = Inr (k, st')"
    and w': "db w' = put_store storeName st' (db w)"
    by (auto simp: updateItem_def op Date_now_def Let_def
        split: if_splits sum.splits option.splits)
  from store_put_consistent [OF assms(3) put] w' show ?thesis
    by (auto simp: get_put_store_same [OF assms(1)])
qed

section \<open>Export, then import\<close>

lemma insert_by_key_append:
  "\<forall>p \<in> set ps. \<not> key_less k (fst p) \<Longrightarrow> insert_by_key k v ps = ps @ [(k, v)]"
  by (induction ps) auto

lemma length_insert_by_key [simp]: "length (insert_by_key k v ps) = Suc (length ps)"
  by (induction ps) auto

lemma map_of_None_numeric:
  "\<forall>p \<in> set ps. \<exists>m. fst p = JNum m \<and> m < g \<Longrightarrow> map_of ps (JNum g) = None"
  by (induction ps) auto

lemma store_add_generated:
  assumes "v ''id'' = None" and "keygen st \<le> MAX_KEY"
    and "\<forall>p \<in> set (items st). \<exists>m. fst p = JNum m \<and> m < of_int (keygen st)"
  shows "store_add \<lparr>keyPath = ''id'', autoIncrement = True\<rparr> v st =
           Inr (JNum (of_int (keygen st)),
                st\<lparr>items := items st @ [(JNum (of_int (keygen st)),
                                          v(''id'' \<mapsto> JNum (of_int (keygen st))))],
                   keygen := keygen st + 1\<rparr>)"
proof -
  have none: "map_of (items st) (JNum (of_int (keygen st))) = None"
    using assms(3) by (rule map_of_None_numeric)
  have "\<forall>p \<in> set (items st). \<not> key_less (JNum (of_int (keygen st))) (fst p)"
    using assms(3) by fastforce
  then have app: "insert_by_key (JNum (of_int (keygen st))) x (items st) =
      items st @ [(JNum (of_int (keygen st)), x)]" for x
    by (rule insert_by_key_append)
  show ?thesis
    using assms(1,2) none by (simp add: store_add_def store_get_def Let_def app)
qed

lemma put_store_twice:
  "put_store s a (put_store s b d) = put_store s a d"
  by (simp add: put_store_def)

lemma records_without_id_renumbered:
  "map (\<lambda>p. (snd p)(''id'' := None)) (renumbered g rs) = map (\<lambda>r. r(''id'' := None)) rs"
  by (induction rs arbitrary: g) simp_all

lemma records_without_id_items:
  assumes "items st' = renumbered g (map snd (items st))"
  shows "records_without_id st' = records_without_id st"
  unfolding records_without_id_def assms records_without_id_renumbered
  by (simp add: comp_def)

lemma import_without_id_renumbers:
  assumes "s = ''operations'' \<or> s = ''workspaces''"
    and "get_store s (db w) = Some st"
    and "\<forall>r \<in> set rs. truthy_opt (r ''timestamp'')"
    and "\<forall>p \<in> set (items st). \<exists>m. fst p = JNum m \<and> m < of_int (keygen st)"
    and "keygen st + int (length rs) \<le> MAX_KEY + 1"
  shows "\<exists>st'. import_without_id e s (map JObj rs) n w =
                  (Inr (n + length rs), w\<lparr>db := put_store s st' (db w)\<rparr>)
              \<and> items st' = items st @ renumbered (keygen st) rs"
  using assms(2-5)
proof (induction rs arbitrary: n w st)
  case Nil
  have "w\<lparr>db := put_store s st (db w)\<rparr> = w"
    using Nil.prems(1) assms(1) by (auto simp: put_store_def get_store_def split: if_splits)
  then show ?case by (intro exI [of _ st]) simp
next
  case (Cons r rs)
  let ?g = "keygen st"
  let ?k = "JNum (of_int ?g)"
  let ?v = "r(''id'' := None)"
  define st1 where "st1 = st\<lparr>items := items st @ [(?k, ?v(''id'' \<mapsto> ?k))], keygen := ?g + 1\<rparr>"
  define w1 where "w1 = w\<lparr>db := put_store s st1 (db w)\<rparr>"
  have cfg: "STORES s = Some \<lparr>keyPath = ''id'', autoIncrement = True\<rparr>"
    using assms(1) by (auto simp: STORES_def)
  have op: "open_store s w = Some (\<lparr>keyPath = ''id'', autoIncrement = True\<rparr>, st)"
    using cfg Cons.prems(1) by (simp add: open_store_def)
  have ts: "truthy_opt (?v ''timestamp'')" using Cons.prems(2) by simp
  have le: "?g \<le> MAX_KEY" using Cons.prems(4) by simp
  have sa: "store_add \<lparr>keyPath = ''id'', autoIncrement = True\<rparr> ?v st = Inr (?k, st1)"
    unfolding st1_def using le Cons.prems(3) by (intro store_add_generated) simp_all
  have add: "add_without_id e s (JObj r) w = (Inr ?k, w1)"
    using ts sa by (simp add: add_without_id_def addItem_def op w1_def)
  have g1: "get_store s (db w1) = Some st1"
    by (simp add: w1_def get_put_store_same [OF cfg])
  have inv1: "\<forall>p \<in> set (items st1). \<exists>m. fst p = JNum m \<and> m < of_int (keygen st1)"
    using Cons.prems(3) by (fastforce simp: st1_def)
  have room1: "keygen st1 + int (length rs) \<le> MAX_KEY + 1"
    using Cons.prems(4) by (simp add: st1_def)
  have ts1: "\<forall>r \<in> set rs. truthy_opt (r ''timestamp'')" using Cons.prems(2) by simp
  from Cons.IH [OF g1 ts1 inv1 room1, of "n + 1"] obtain st' where
    run: "import_without_id e s (map JObj rs) (n + 1) w1 =
            (Inr (n + 1 + length rs), w1\<lparr>db := put_store s st' (db w1)\<rparr>)"
    and recs: "items st' = items st1 @ renumbered (keygen st1) rs"
    by blast
  have w': "w1\<lparr>db := put_store s st' (db w1)\<rparr> = w\<lparr>db := put_store s st' (db w)\<rparr>"
    by (simp add: w1_def put_store_twice)
  have r2: "items st' = items st @ renumbered (keygen st) (r # rs)"
    unfolding recs by (simp add: st1_def)
  have "import_without_id e s (map JObj (r # rs)) n w =
          (Inr (n + length (r # rs)), w\<lparr>db := put_store s st' (db w)\<rparr>)"
    using add run unfolding w' by simp
  with r2 show ?case by blast
qed

lemma import_themes_restores:
  assumes "distinct (map fst kvs)"
    and "\<forall>p \<in> set kvs. valid_key (fst p) \<and> (snd p) ''id'' = Some (fst p)
                          \<and> truthy_opt ((snd p) ''timestamp'')"
    and "\<forall>p \<in> set kvs. map_of (items (themes (db w))) (fst p) = None"
  shows "\<exists>st'. import_themes e (map (\<lambda>p. JObj (snd p)) kvs) n w =
                  (Inr (n + length kvs), w\<lparr>db := (db w)\<lparr>themes := st'\<rparr>\<rparr>)
              \<and> map_of (items st') = map_of (items (themes (db w))) ++ map_of kvs
              \<and> set (items st') = set (items (themes (db w))) \<union> set kvs
              \<and> length (items st') = length (items (themes (db w))) + length kvs"
  using assms
proof (induction kvs arbitrary: n w)
  case Nil
  show ?case by (intro exI [of _ "themes (db w)"]) simp
next
  case (Cons p kvs)
  obtain k r where p: "p = (k, r)" by (cases p)
  let ?st = "themes (db w)"
  define st1 where "st1 = ?st\<lparr>items := insert_by_key k r (items ?st)\<rparr>"
  define w1 where "w1 = w\<lparr>db := (db w)\<lparr>themes := st1\<rparr>\<rparr>"
  have vk: "valid_key k" and rid: "r ''id'' = Some k" and ts: "truthy_opt (r ''timestamp'')"
    using Cons.prems(2) p by simp_all
  have none: "map_of (items ?st) k = None" using Cons.prems(3) p by simp
  have op: "open_store ''themes'' w = Some (\<lparr>keyPath = ''id'', autoIncrement = False\<rparr>, ?st)"
    by (simp add: open_store_def STORES_def get_store_def)
  have sa: "store_add \<lparr>keyPath = ''id'', autoIncrement = False\<rparr> r ?st = Inr (k, st1)"
    using vk rid none
    by (cases k) (simp_all add: store_add_def store_get_def bump_keygen_def st1_def)
  have add: "add_theme e (JObj r) w = (Inr k, w1)"
    using ts sa by (simp add: add_theme_def addItem_def op w1_def put_store_def)
  have m1: "map_of (items st1) = (map_of (items ?st))(k \<mapsto> r)"
    using none by (simp add: st1_def map_of_insert_by_key)
  have s1: "set (items st1) = insert (k, r) (set (items ?st))"
    by (simp add: st1_def set_insert_by_key)
  have notin: "k \<notin> fst ` set kvs" using Cons.prems(1) p by simp
  have d: "distinct (map fst kvs)" using Cons.prems(1) by simp
  have ok: "\<forall>p \<in> set kvs. valid_key (fst p) \<and> (snd p) ''id'' = Some (fst p)
                          \<and> truthy_opt ((snd p) ''timestamp'')"
    using Cons.prems(2) by simp
  have free: "\<forall>q \<in> set kvs. map_of (items (themes (db w1))) (fst q) = None"
    using Cons.prems(3) notin by (auto simp: w1_def m1)
  from Cons.IH [OF d ok free, of "n + 1"] obtain st' where
    run: "import_themes e (map (\<lambda>p. JObj (snd p)) kvs) (n + 1) w1 =
            (Inr (n + 1 + length kvs), w1\<lparr>db := (db w1)\<lparr>themes := st'\<rparr>\<rparr>)"
    and m': "map_of (items st') = map_of (items (themes (db w1))) ++ map_of kvs"
    and s': "set (items st') = set (items (themes (db w1))) \<union> set kvs"
    and l': "length (items st') = length (items (themes (db w1))) + length kvs"
    by blast
  have w': "w1\<lparr>db := (db w1)\<lparr>themes := st'\<rparr>\<rparr> = w\<lparr>db := (db w)\<lparr>themes := st'\<rparr>\<rparr>"
    by (simp add: w1_def)
  have kd: "k \<notin> dom (map_of kvs)" using notin by (simp add: dom_map_of_conv_image_fst)
  have m: "map_of (items st') = map_of (items ?st) ++ map_of (p # kvs)"
    using m' kd by (simp add: w1_def m1 p map_add_upd_left)
  have st: "set (items st') = set (items ?st) \<union> set (p # kvs)"
    using s' by (simp add: w1_def s1 p)
  have l: "length (items st') = length (items ?st) + length (p # kvs)"
    using l' by (simp add: w1_def st1_def)
  have "import_themes e (map (\<lambda>p. JObj (snd p)) (p # kvs)) n w =
          (Inr (n + length (p # kvs)), w\<lparr>db := (db w)\<lparr>themes := st'\<rparr>\<rparr>)"
    using add run unfolding w' by (simp add: p)
  with m st l show ?case by blast
qed

lemma records_of_array:
  "records_of e (Some (JArr (map JObj rs))) = Inr (map JObj rs)"
  by (cases rs) (simp_all add: records_of_def count_of_def)

lemma map_option_comp_upd:
  "map_option f \<circ> (m(k \<mapsto> v)) = (map_option f \<circ> m)(k \<mapsto> f v)"
  by (auto simp: fun_eq_iff)

lemma map_option_comp_empty:
  "map_option f \<circ> Map.empty = Map.empty"
  by (auto simp: fun_eq_iff)

lemma reparse_records:
  assumes "json_records st"
  shows "map reparse (map JObj (map snd (items st))) = map JObj (map snd (items st))"
proof -
  have "\<forall>p \<in> set (items st). reparse (JObj (snd p)) = JObj (snd p)"
    using assms by (simp add: json_records_def is_json_def)
  then have "map (\<lambda>p. reparse (JObj (snd p))) (items st) = map (\<lambda>p. JObj (snd p)) (items st)"
    by (intro map_cong) simp_all
  then show ?thesis by (simp add: comp_def)
qed

lemma reparse_backup_document:
  assumes "json_records tstore" and "json_records ostore" and "json_records wstore"
  shows "reparse (backup_document e t (map snd (items tstore)) (map snd (items ostore))
                    (map snd (items wstore))) =
         backup_document e t (map snd (items tstore)) (map snd (items ostore))
           (map snd (items wstore))"
  unfolding backup_document_def reparse.simps map_option_comp_upd map_option_comp_empty
    reparse_records [OF assms(1)] reparse_records [OF assms(2)] reparse_records [OF assms(3)]
    count_of_def
  by (rule refl)

lemma exportData_downloads:
  "downloads (snd (exportData e w)) =
     downloads w @ [(backup_filename e (clock e (tick w)),
                     reparse (backup_document e (clock e (tick w))
                       (map snd (items (themes (db w))))
                       (map snd (items (operations (db w))))
                       (map snd (items (workspaces (db w))))))]"
proof -
  let ?t = "clock e (tick w)"
  let ?doc = "backup_document e ?t (map snd (items (themes (db w))))
                (map snd (items (operations (db w)))) (map snd (items (workspaces (db w))))"
  let ?w2 = "(w\<lparr>tick := tick w + 1\<rparr>)\<lparr>downloads :=
               downloads w @ [(backup_filename e ?t, reparse ?doc)]\<rparr>"
  obtain r w3 where a: "addItem e ''backups''
                    [''timestamp'' \<mapsto> JNum (of_int ?t),
                     ''version'' \<mapsto> JStr BACKUP_VERSION,
                     ''filename'' \<mapsto> JStr (backup_filename e ?t),
                     ''size'' \<mapsto> JNum (of_nat (stringify_length e ?doc)),
                     ''counts'' \<mapsto> JObj [''themes'' \<mapsto> count_of (map snd (items (themes (db w)))),
                                         ''operations'' \<mapsto> count_of (map snd (items (operations (db w)))),
                                         ''workspaces'' \<mapsto> count_of (map snd (items (workspaces (db w))))]] ?w2
       = (r, w3)"
    by (rule prod.exhaust)
  have d3: "downloads w3 = downloads ?w2"
    using addItem_frame [OF a] by (simp add: page_kept_def)
  have "snd (exportData e w) = w3"
    using a
    by (cases r) (simp_all add: exportData_def getAllItems_def open_store_def STORES_def
        get_store_def Date_now_def Let_def)
  with d3 show ?thesis by simp
qed

lemma exported_document_eq:
  "exported_document e w =
     reparse (backup_document e (clock e (tick w))
       (map snd (items (themes (db w))))
       (map snd (items (operations (db w))))
       (map snd (items (workspaces (db w)))))"
  by (simp add: exported_document_def exportData_downloads)

lemma loadTheme_default_present:
  assumes "store_get (themes (db w)) (JStr ''default'') \<noteq> None"
  shows "db (loadTheme e w) = db w"
proof -
  from assms obtain r where "getItem ''themes'' (JStr ''default'') w = Inr (Some r)"
    by (auto simp: getItem_def open_store_def STORES_def get_store_def)
  then show ?thesis
    by (auto simp: loadTheme_def loadTheme_fallback_db split: sum.splits
        dest: apply_theme_data_db)
qed

lemma insert_exported:
  assumes ck: "consistent_keys ''id'' tstore"
    and tt: "timestamps_truthy tstore" and ot: "timestamps_truthy ostore" and st: "timestamps_truthy wstore"
    and e1: "items (themes (db wc)) = []" and e2: "items (operations (db wc)) = []"
    and e3: "items (workspaces (db wc)) = []"
    and r2: "keygen (operations (db wc)) + int (length (items ostore)) \<le> MAX_KEY + 1"
    and r3: "keygen (workspaces (db wc)) + int (length (items wstore)) \<le> MAX_KEY + 1"
  shows "\<exists>ww. insert_collections e
                 (backup_document e t (map snd (items tstore)) (map snd (items ostore)) (map snd (items wstore)))
                 wc =
               (Inr \<lparr>imported_themes = length (items tstore),
                     imported_operations = length (items ostore),
                     imported_workspaces = length (items wstore)\<rparr>, ww)
            \<and> store_get (themes (db ww)) = store_get tstore
            \<and> set (items (themes (db ww))) = set (items tstore)
            \<and> length (items (themes (db ww))) = length (items tstore)
            \<and> items (operations (db ww)) =
                renumbered (keygen (operations (db wc))) (map snd (items ostore))
            \<and> items (workspaces (db ww)) =
                renumbered (keygen (workspaces (db wc))) (map snd (items wstore))"
proof -
  let ?doc = "backup_document e t (map snd (items tstore)) (map snd (items ostore)) (map snd (items wstore))"
  let ?data = "[''themes'' \<mapsto> JArr (map JObj (map snd (items tstore))),
                ''operations'' \<mapsto> JArr (map JObj (map snd (items ostore))),
                ''workspaces'' \<mapsto> JArr (map JObj (map snd (items wstore)))]"
  have rd: "read_prop (Some ?doc) ''data'' = Inr (Some (JObj ?data))"
    by (simp add: backup_document_def)
  have s1: "read_prop (Some (JObj ?data)) ''themes'' = Inr (Some (JArr (map JObj (map snd (items tstore)))))"
    and s2: "read_prop (Some (JObj ?data)) ''operations'' = Inr (Some (JArr (map JObj (map snd (items ostore)))))"
    and s3: "read_prop (Some (JObj ?data)) ''workspaces'' = Inr (Some (JArr (map JObj (map snd (items wstore)))))"
    by simp_all
  \<comment> \<open>themes\<close>
  have d: "distinct (map fst (items tstore))"
    and ok: "\<forall>p \<in> set (items tstore). valid_key (fst p) \<and> (snd p) ''id'' = Some (fst p)
                          \<and> truthy_opt ((snd p) ''timestamp'')"
    using ck tt by (auto simp: consistent_keys_def timestamps_truthy_def)
  have free: "\<forall>p \<in> set (items tstore). map_of (items (themes (db wc))) (fst p) = None"
    using e1 by simp
  from import_themes_restores [OF d ok free, of e 0] obtain st1 where
    l1: "import_themes e (map (\<lambda>p. JObj (snd p)) (items tstore)) 0 wc =
           (Inr (length (items tstore)), wc\<lparr>db := (db wc)\<lparr>themes := st1\<rparr>\<rparr>)"
    and m1: "map_of (items st1) = map_of (items tstore)"
    and q1: "set (items st1) = set (items tstore)"
    and n1: "length (items st1) = length (items tstore)"
    using e1 by auto
  define wt where "wt = wc\<lparr>db := (db wc)\<lparr>themes := st1\<rparr>\<rparr>"
  have l1': "import_themes e (map JObj (map snd (items tstore))) 0 wc = (Inr (length (items tstore)), wt)"
    using l1 by (simp add: wt_def comp_def)
  \<comment> \<open>operations\<close>
  have g2: "get_store ''operations'' (db wt) = Some (operations (db wc))"
    by (simp add: get_store_def wt_def)
  have ts2: "\<forall>r \<in> set (map snd (items ostore)). truthy_opt (r ''timestamp'')"
    using ot by (auto simp: timestamps_truthy_def)
  have inv2: "\<forall>p \<in> set (items (operations (db wc))).
                \<exists>m. fst p = JNum m \<and> m < of_int (keygen (operations (db wc)))"
    using e2 by simp
  have room2: "keygen (operations (db wc)) + int (length (map snd (items ostore))) \<le> MAX_KEY + 1"
    using r2 by simp
  from import_without_id_renumbers [OF _ g2 ts2 inv2 room2, of e 0] obtain st2 where
    l2: "import_without_id e ''operations'' (map JObj (map snd (items ostore))) 0 wt =
           (Inr (length (items ostore)), wt\<lparr>db := put_store ''operations'' st2 (db wt)\<rparr>)"
    and c2: "items st2 = renumbered (keygen (operations (db wc))) (map snd (items ostore))"
    using e2 by auto
  define wo where "wo = wt\<lparr>db := put_store ''operations'' st2 (db wt)\<rparr>"
  \<comment> \<open>workspaces\<close>
  have g3: "get_store ''workspaces'' (db wo) = Some (workspaces (db wc))"
    by (simp add: get_store_def wo_def wt_def put_store_def)
  have ts3: "\<forall>r \<in> set (map snd (items wstore)). truthy_opt (r ''timestamp'')"
    using st by (auto simp: timestamps_truthy_def)
  have inv3: "\<forall>p \<in> set (items (workspaces (db wc))).
                \<exists>m. fst p = JNum m \<and> m < of_int (keygen (workspaces (db wc)))"
    using e3 by simp
  have room3: "keygen (workspaces (db wc)) + int (length (map snd (items wstore))) \<le> MAX_KEY + 1"
    using r3 by simp
  from import_without_id_renumbers [OF _ g3 ts3 inv3 room3, of e 0] obtain st3 where
    l3: "import_without_id e ''workspaces'' (map JObj (map snd (items wstore))) 0 wo =
           (Inr (length (items wstore)), wo\<lparr>db := put_store ''workspaces'' st3 (db wo)\<rparr>)"
    and c3: "items st3 = renumbered (keygen (workspaces (db wc))) (map snd (items wstore))"
    using e3 by auto
  define ww where "ww = wo\<lparr>db := put_store ''workspaces'' st3 (db wo)\<rparr>"
  have run: "insert_collections e ?doc wc =
               (Inr \<lparr>imported_themes = length (items tstore),
                     imported_operations = length (items ostore),
                     imported_workspaces = length (items wstore)\<rparr>, ww)"
    unfolding insert_collections_def rd s1 s2 s3 records_of_array l1'
      l2 [folded wo_def] l3 [folded ww_def] sum.case prod.case
    by (rule refl)
  have f1: "themes (db ww) = st1" and f2: "operations (db ww) = st2"
    and f3: "workspaces (db ww) = st3"
    by (simp_all add: ww_def wo_def wt_def put_store_def)
  have "store_get (themes (db ww)) = store_get tstore"
    using m1 by (simp add: f1 store_get_def fun_eq_iff)
  with run q1 n1 c2 c3 f1 f2 f3 show ?thesis by auto
qed

text \<open>
  C2, as the code has it by design. Take a state \<open>w\<close> in which every record of the
  three collections is a JSON value and has a truthy \<open>timestamp\<close>, the keys of \<open>themes\<close>
  are consistent and \<open>themes\<close> holds the record \<open>default\<close>; export it at a time other
  than 0. Import the exported document, accepting the dialogs, into any state \<open>w2\<close>
  whose key generators have room for the records to come, whatever its collections
  hold. Afterwards \<open>themes\<close> holds exactly the records that it held in \<open>w\<close>, each under
  its key. \<open>operations\<close> and \<open>workspaces\<close> hold the records that they held in \<open>w\<close>, in
  the same order, under keys generated from the store's generator on, each with its
  new key as \<open>id\<close> and equal to the original in every other field. This holds whether
  the import then reports success or fails after the collections are restored.
\<close>

theorem export_import_roundtrip:
  assumes accept: "\<forall>p. confirm e p"
    and stamp: "clock e (tick w) \<noteq> 0"
    and ck: "consistent_keys ''id'' (themes (db w))"
    and jt: "json_records (themes (db w))"
    and jo: "json_records (operations (db w))"
    and jw: "json_records (workspaces (db w))"
    and tt: "timestamps_truthy (themes (db w))"
    and ot: "timestamps_truthy (operations (db w))"
    and wt: "timestamps_truthy (workspaces (db w))"
    and dflt: "store_get (themes (db w)) (JStr ''default'') \<noteq> None"
    and room2: "keygen (operations (db w2)) + int (length (items (operations (db w)))) \<le> MAX_KEY + 1"
    and room3: "keygen (workspaces (db w2)) + int (length (items (workspaces (db w)))) \<le> MAX_KEY + 1"
  shows "store_get (themes (db (snd (importData e f (exported_document e w) w2)))) =
           store_get (themes (db w))
       \<and> set (items (themes (db (snd (importData e f (exported_document e w) w2))))) =
           set (items (themes (db w)))
       \<and> length (items (themes (db (snd (importData e f (exported_document e w) w2))))) =
           length (items (themes (db w)))
       \<and> items (operations (db (snd (importData e f (exported_document e w) w2)))) =
           renumbered (keygen (operations (db w2))) (map snd (items (operations (db w))))
       \<and> records_without_id (operations (db (snd (importData e f (exported_document e w) w2)))) =
           records_without_id (operations (db w))
       \<and> items (workspaces (db (snd (importData e f (exported_document e w) w2)))) =
           renumbered (keygen (workspaces (db w2))) (map snd (items (workspaces (db w))))
       \<and> records_without_id (workspaces (db (snd (importData e f (exported_document e w) w2)))) =
           records_without_id (workspaces (db w))"
proof -
  let ?doc = "backup_document e (clock e (tick w)) (map snd (items (themes (db w))))
                (map snd (items (operations (db w)))) (map snd (items (workspaces (db w))))"
  let ?n = "\<lparr>imported_themes = length (items (themes (db w))),
             imported_operations = length (items (operations (db w))),
             imported_workspaces = length (items (workspaces (db w)))\<rparr>"
  have doc: "exported_document e w = ?doc"
    unfolding exported_document_eq by (rule reparse_backup_document [OF jt jo jw])
  have v: "validateBackup ?doc = Inr Valid"
    using stamp
    by (simp add: validateBackup_def backup_document_def BACKUP_MAGIC_def BACKUP_VERSION_def)
  have cv: "check_version e ?doc w2 = (Inr (), w2)"
    by (simp add: check_version_def backup_document_def isCompatibleVersion_major
        BACKUP_VERSION_def)
  have "\<exists>wa. confirm_import e ?doc w2 = (Inr (), wa) \<and> db wa = db w2"
    using accept by (simp add: confirm_import_def backup_document_def ask_def Let_def)
  then obtain wa where ci: "confirm_import e ?doc w2 = (Inr (), wa)" and dba: "db wa = db w2"
    by blast
  obtain rx wx where ex: "exportData e wa = (rx, wx)" by (rule prod.exhaust)
  have fx: "only_store ''backups'' wa wx" using exportData_frame [OF ex] by simp
  define wc where "wc = wx\<lparr>db := (db wx)\<lparr>themes := (themes (db wx))\<lparr>items := []\<rparr>,
                           operations := (operations (db wx))\<lparr>items := []\<rparr>,
                           workspaces := (workspaces (db wx))\<lparr>items := []\<rparr>\<rparr>\<rparr>"
  have cl: "clear_collections wx = (Inr (), wc)"
    by (simp add: clear_collections_eq wc_def)
  have same: "operations (db wx) = operations (db w2)" "workspaces (db wx) = workspaces (db w2)"
    using fx dba by (simp_all add: only_store_def)
  have e1: "items (themes (db wc)) = []" and e2: "items (operations (db wc)) = []"
    and e3: "items (workspaces (db wc)) = []"
    by (simp_all add: wc_def)
  have g2: "keygen (operations (db wc)) = keygen (operations (db w2))"
    and g3: "keygen (workspaces (db wc)) = keygen (workspaces (db w2))"
    using same by (simp_all add: wc_def)
  have r2: "keygen (operations (db wc)) + int (length (items (operations (db w)))) \<le> MAX_KEY + 1"
    and r3: "keygen (workspaces (db wc)) + int (length (items (workspaces (db w)))) \<le> MAX_KEY + 1"
    using room2 room3 g2 g3 by simp_all
  from insert_exported [OF ck tt ot wt e1 e2 e3 r2 r3, of e "clock e (tick w)"]
  obtain ww where ins: "insert_collections e ?doc wc = (Inr ?n, ww)"
    and c1: "store_get (themes (db ww)) = store_get (themes (db w))"
    and c1s: "set (items (themes (db ww))) = set (items (themes (db w)))"
    and c1': "length (items (themes (db ww))) = length (items (themes (db w)))"
    and c2: "items (operations (db ww)) =
               renumbered (keygen (operations (db w2))) (map snd (items (operations (db w))))"
    and c3: "items (workspaces (db ww)) =
               renumbered (keygen (workspaces (db w2))) (map snd (items (workspaces (db w))))"
    unfolding g2 g3 by blast
  obtain r4 w4 where ri: "record_import e f ?doc ?n ww = (r4, w4)" by (rule prod.exhaust)
  have f4: "only_store ''backups'' ww w4" using record_import_frame [OF ri] by simp
  have k4: "themes (db w4) = themes (db ww)" "operations (db w4) = operations (db ww)"
    "workspaces (db w4) = workspaces (db ww)"
    using f4 by (simp_all add: only_store_def)
  have conf: "import_confirmed e f ?doc wa =
      (case r4 of Inl err \<Rightarrow> (Inl err, w4) | Inr k \<Rightarrow> (Inr ?n, reapply_theme e w4))"
    by (simp add: import_confirmed_def ex cl ins ri split: sum.splits)
  have run: "importData e f ?doc w2 =
      (case r4 of Inl err \<Rightarrow> (Inl err, w4) | Inr k \<Rightarrow> (Inr ?n, reapply_theme e w4))"
    by (simp add: importData_def v cv import_after_version_check_def ci conf)
  have d4: "store_get (themes (db w4)) (JStr ''default'') \<noteq> None"
    using dflt c1 k4 by simp
  have t5: "themes (db (reapply_theme e w4)) = themes (db w4)"
    using loadTheme_default_present [OF d4, of e] by (simp add: reapply_theme_themes)
  have f5: "only_store ''themes'' w4 (reapply_theme e w4)"
    using reapply_theme_frame [of e w4] by simp
  have k5: "operations (db (reapply_theme e w4)) = operations (db w4)"
    "workspaces (db (reapply_theme e w4)) = workspaces (db w4)"
    using f5 by (simp_all add: only_store_def)
  define w' where "w' = snd (importData e f (exported_document e w) w2)"
  have fin: "themes (db w') = themes (db ww)" "operations (db w') = operations (db ww)"
    "workspaces (db w') = workspaces (db ww)"
    unfolding w'_def doc run using k4 t5 k5 by (cases r4; simp)+
  have ro: "records_without_id (operations (db w')) = records_without_id (operations (db w))"
    using c2 unfolding fin [symmetric] by (rule records_without_id_items)
  have rw: "records_without_id (workspaces (db w')) = records_without_id (workspaces (db w))"
    using c3 unfolding fin [symmetric] by (rule records_without_id_items)
  from c1 c1s c1' c2 c3 ro rw show ?thesis
    unfolding fin [symmetric] w'_def by blast
qed

theorem export_import_roundtrip_witness:
  "items (themes (db bare_world)) = []
   \<and> store_get (themes (db (snd (importData example_env ''b.json''
          (exported_document example_env example_world) bare_world)))) =
       store_get (themes (db example_world))
   \<and> items (operations (db (snd (importData example_env ''b.json''
          (exported_document example_env example_world) bare_world)))) =
       [(JNum 2, example_operation(''id'' \<mapsto> JNum 2))]
   \<and> items (operations (db example_world)) = [(JNum 1, example_operation)]
   \<and> items (operations (db (snd (importData example_env ''b.json''
          (exported_document example_env example_world)
          (snd (exportData example_env example_world)))))) =
       [(JNum 2, example_operation(''id'' \<mapsto> JNum 2))]"
proof -
  let ?after = "snd (exportData example_env example_world)"
  have h1: "\<forall>p. confirm example_env p" by (simp add: example_env_def)
  have h2: "clock example_env (tick example_world) \<noteq> 0"
    by (simp add: example_env_def example_world_def)
  have h3: "consistent_keys ''id'' (themes (db example_world))"
    by (simp add: consistent_keys_def example_defs)
  have j1: "json_records (themes (db example_world))"
    and j2: "json_records (operations (db example_world))"
    and j3: "json_records (workspaces (db example_world))"
    by (simp_all add: json_records_def is_json_def example_defs map_option_comp_upd
        map_option_comp_empty)
  have h4: "timestamps_truthy (themes (db example_world))"
    and h5: "timestamps_truthy (operations (db example_world))"
    and h6: "timestamps_truthy (workspaces (db example_world))"
    by (simp_all add: timestamps_truthy_def example_defs)
  have h7: "store_get (themes (db example_world)) (JStr ''default'') \<noteq> None"
    by (simp add: store_get_def example_defs)
  have h8: "keygen (operations (db bare_world))
              + int (length (items (operations (db example_world)))) \<le> MAX_KEY + 1"
    and h9: "keygen (workspaces (db bare_world))
              + int (length (items (workspaces (db example_world)))) \<le> MAX_KEY + 1"
    by (simp_all add: MAX_KEY_def example_defs bare_world_def)
  have "only_store ''backups'' example_world ?after"
    using exportData_frame [of example_env example_world
        "fst (exportData example_env example_world)" ?after]
    by simp
  then have same: "operations (db ?after) = operations (db example_world)"
    "workspaces (db ?after) = workspaces (db example_world)"
    by (simp_all add: only_store_def)
  have h8': "keygen (operations (db ?after))
              + int (length (items (operations (db example_world)))) \<le> MAX_KEY + 1"
    and h9': "keygen (workspaces (db ?after))
              + int (length (items (workspaces (db example_world)))) \<le> MAX_KEY + 1"
    unfolding same by (simp_all add: MAX_KEY_def example_defs)
  have b: "items (themes (db bare_world)) = []"
    and i: "items (operations (db example_world)) = [(JNum 1, example_operation)]"
    and g: "renumbered (keygen (operations (db bare_world)))
              (map snd (items (operations (db example_world)))) =
            [(JNum 2, example_operation(''id'' \<mapsto> JNum 2))]"
    and g': "renumbered (keygen (operations (db example_world)))
              (map snd (items (operations (db example_world)))) =
            [(JNum 2, example_operation(''id'' \<mapsto> JNum 2))]"
    by (simp_all add: example_defs bare_world_def)
  from export_import_roundtrip [OF h1 h2 h3 j1 j2 j3 h4 h5 h6 h7 h8 h9, of "''b.json''"]
    export_import_roundtrip [OF h1 h2 h3 j1 j2 j3 h4 h5 h6 h7 h8' h9', of "''b.json''"]
    b i g g'
  show ?thesis unfolding same by simp
qed

text \<open>
  C2 as stated fails. In \<open>bare_world\<close> the \<open>themes\<close> collection is empty; after export
  and import it holds a record \<open>default\<close>, which \<open>loadTheme\<close> saves at the end of the
  import when it finds none. In \<open>nan_world\<close> the theme \<open>default\<close> holds the scale
  \<open>NaN\<close>; the JSON text of the export has \<open>null\<close> in its place, and that is what the
  import stores.
\<close>

theorem roundtrip_counterexample:
  "items (themes (db bare_world)) = []
   \<and> map fst (items (themes (db (snd (importData example_env ''b.json''
          (exported_document example_env bare_world)
          (snd (exportData example_env bare_world))))))) = [JStr ''default'']
   \<and> store_get (themes (db nan_world)) (JStr ''default'') = Some nan_theme
   \<and> nan_theme ''scale'' = Some (JObj [''current'' \<mapsto> JNaN])
   \<and> store_get (themes (db (snd (importData example_env ''b.json''
          (exported_document example_env nan_world)
          (snd (exportData example_env nan_world)))))) (JStr ''default'') =
       Some (nan_theme(''scale'' \<mapsto> JObj [''current'' \<mapsto> JNull]))"
  by (simp add: exported_document_eq backup_defs store_defs example_defs nan_theme_def
      nan_world_def bare_world_def map_option_comp_upd map_option_comp_empty Let_def)

end
